theory Spec2Isabelle
  imports Main "HOL-Library.Sublist" "HOL-Library.AList"
begin

section \<open>Python strings\<close>

text \<open>
  A Python \<^verbatim>\<open>str\<close> is a sequence of Unicode code points: \<^verbatim>\<open>len\<close>, slicing and
  iteration count code points, not bytes. A character is therefore its code point, a
  natural number, and a string is a list of them. \<open>lit\<close> embeds an ASCII literal.
\<close>

type_synonym pychar = nat
type_synonym str = "pychar list"

definition lit :: "string \<Rightarrow> str" where
  "lit s = map of_char s"

text \<open>
  \<^verbatim>\<open>c.isalnum()\<close> on a one-character string. On ASCII it holds exactly of the digits and
  the letters. Beyond ASCII it is decided by the Unicode character database of the
  interpreter, which is no part of the repository: the table is the parameter \<open>U\<close>.
\<close>

definition isalnum :: "(pychar \<Rightarrow> bool) \<Rightarrow> pychar \<Rightarrow> bool" where
  "isalnum U c =
     (if c < 128 then (48 \<le> c \<and> c \<le> 57) \<or> (65 \<le> c \<and> c \<le> 90) \<or> (97 \<le> c \<and> c \<le> 122)
      else U c)"

text \<open>
  \<^verbatim>\<open>s.replace(old, new)\<close>: every non-overlapping occurrence of \<open>old\<close>, scanning from the
  left. An empty \<open>old\<close> matches before every character and at the end.
\<close>

function replace :: "str \<Rightarrow> str \<Rightarrow> str \<Rightarrow> str" where
  "replace old new [] = (if old = [] then new else [])"
| "replace old new (c # cs) =
     (if old = [] then new @ c # replace old new cs
      else if prefix old (c # cs) then new @ replace old new (drop (length old) (c # cs))
      else c # replace old new cs)"
  by pat_completeness auto
termination
  by (relation "measure (\<lambda>(old, new, s). length s)") auto

text \<open>\<^verbatim>\<open>sep.join(xs)\<close>.\<close>

fun join :: "str \<Rightarrow> str list \<Rightarrow> str" where
  "join sep [] = []"
| "join sep [x] = x"
| "join sep (x # y # ys) = x @ sep @ join sep (y # ys)"

section \<open>Line 48: the sanitized purpose\<close>

text \<open>
  \<^verbatim>\<open>safe_purpose = "".join(c for c in purpose if c.isalnum() or c in (" ", "_"))
                   .replace(" ", "_")[:30]\<close>
  Joining one-character strings with the empty separator is the filtered string itself.
\<close>

definition keeps :: "(pychar \<Rightarrow> bool) \<Rightarrow> pychar \<Rightarrow> bool" where
  "keeps U c = (isalnum U c \<or> c \<in> set (lit '' '' @ lit ''_''))"

definition safe_purpose :: "(pychar \<Rightarrow> bool) \<Rightarrow> str \<Rightarrow> str" where
  "safe_purpose U purpose =
     take 30 (replace (lit '' '') (lit ''_'') (join [] (map (\<lambda>c. [c]) (filter (keeps U) purpose))))"

text \<open>
  The sanitized purpose as the specification words it: keep the alphanumeric, space and
  underscore characters, turn every space into an underscore, keep at most 30 characters.
\<close>

definition spec_sanitize :: "(pychar \<Rightarrow> bool) \<Rightarrow> str \<Rightarrow> str" where
  "spec_sanitize U purpose =
     take 30 (map (\<lambda>c. if c = 32 then 95 else c)
       (filter (\<lambda>c. isalnum U c \<or> c = 32 \<or> c = 95) purpose))"

section \<open>Numbers and time stamps as text\<close>

text \<open>\<^verbatim>\<open>str(n)\<close> of a Python integer: decimal digits, a minus sign when negative.\<close>

fun digits :: "nat \<Rightarrow> str" where
  "digits n = (if n < 10 then [48 + n] else digits (n div 10) @ [48 + n mod 10])"

declare digits.simps [simp del]

definition str_int :: "int \<Rightarrow> str" where
  "str_int i = (if i < 0 then lit ''-'' @ digits (nat (- i)) else digits (nat i))"




text \<open>
  Line 47: \<^verbatim>\<open>datetime.now().strftime("%Y%m%d_%H%M%S")\<close>. The clock reading is a record;
  the format writes every field but the microseconds, in decimal and padded with zeros
  on the left, the year to four places (the years a clock reads have four digits) and the
  others to two.
\<close>

record datetime =
  year :: nat
  month :: nat
  day :: nat
  hour :: nat
  minute :: nat
  second :: nat
  microsecond :: nat

definition zfill :: "nat \<Rightarrow> str \<Rightarrow> str" where
  "zfill w s = replicate (w - length s) 48 @ s"

definition strftime :: "datetime \<Rightarrow> str" where
  "strftime t =
     zfill 4 (digits (year t)) @ zfill 2 (digits (month t)) @ zfill 2 (digits (day t)) @
     lit ''_'' @
     zfill 2 (digits (hour t)) @ zfill 2 (digits (minute t)) @ zfill 2 (digits (second t))"

text \<open>Two clock readings in the same second: they agree in all but the microseconds.\<close>

definition same_second :: "datetime \<Rightarrow> datetime \<Rightarrow> bool" where
  "same_second s t =
     (year s = year t \<and> month s = month t \<and> day s = day t \<and>
      hour s = hour t \<and> minute s = minute t \<and> second s = second t)"

section \<open>Paths\<close>

text \<open>
  A \<^verbatim>\<open>pathlib.Path\<close> on POSIX, absolute: the list of its components below the root
  directory. \<open>path_div p s\<close> is \<^verbatim>\<open>p / s\<close> for a string \<open>s\<close>: the string is cut at
  every slash, empty and single-dot components are dropped, and a string that starts with
  a slash replaces \<open>p\<close> altogether.
\<close>

type_synonym path = "str list"

fun split_on :: "pychar \<Rightarrow> str \<Rightarrow> str list" where
  "split_on sep [] = [[]]"
| "split_on sep (c # cs) =
     (if c = sep then [] # split_on sep cs
      else (case split_on sep cs of [] \<Rightarrow> [[c]] | p # ps \<Rightarrow> (c # p) # ps))"

definition parse_parts :: "str \<Rightarrow> path" where
  "parse_parts s = filter (\<lambda>c. c \<noteq> [] \<and> c \<noteq> lit ''.'') (split_on 47 s)"

definition path_div :: "path \<Rightarrow> str \<Rightarrow> path" where
  "path_div p s = (if s \<noteq> [] \<and> hd s = 47 then parse_parts s else p @ parse_parts s)"

text \<open>\<^verbatim>\<open>str(p)\<close> and \<^verbatim>\<open>p.name\<close>.\<close>

definition str_path :: "path \<Rightarrow> str" where
  "str_path p = (if p = [] then lit ''/'' else concat (map (\<lambda>c. 47 # c) p))"

definition path_name :: "path \<Rightarrow> str" where
  "path_name p = (if p = [] then [] else last p)"

section \<open>The file system\<close>

text \<open>
  The disk is an association list from paths to nodes, in the order in which the
  operating system enumerates entries. The root directory always exists. Every operation
  of the source that can raise returns the exception on the left.
\<close>

datatype node = Dir | File str

type_synonym filesys = "(path \<times> node) list"

datatype exn =
  FileExistsError | FileNotFoundError | NotADirectoryError | IsADirectoryError
  | UnicodeEncodeError

definition stat :: "filesys \<Rightarrow> path \<Rightarrow> node option" where
  "stat fs p = (if p = [] then Some Dir else map_of fs p)"

definition is_dir :: "filesys \<Rightarrow> path \<Rightarrow> bool" where
  "is_dir fs p = (stat fs p = Some Dir)"

text \<open>\<^verbatim>\<open>os.mkdir(p)\<close>.\<close>

definition os_mkdir :: "filesys \<Rightarrow> path \<Rightarrow> exn + filesys" where
  "os_mkdir fs p =
     (case stat fs p of
        Some n \<Rightarrow> Inl FileExistsError
      | None \<Rightarrow>
          (case stat fs (butlast p) of
             None \<Rightarrow> Inl FileNotFoundError
           | Some (File s) \<Rightarrow> Inl NotADirectoryError
           | Some Dir \<Rightarrow> Inr (AList.update p Dir fs)))"

text \<open>
  \<^verbatim>\<open>Path.mkdir(parents, exist_ok)\<close>, as pathlib writes it: try \<^verbatim>\<open>os.mkdir\<close>; when the
  parent is missing and \<open>parents\<close> is set, make the parent (with both flags set) and try
  once more without \<open>parents\<close>; on any other error, re-raise unless \<open>exist_ok\<close> is set
  and the path is a directory.
\<close>

function mkdir :: "filesys \<Rightarrow> path \<Rightarrow> bool \<Rightarrow> bool \<Rightarrow> exn + filesys" where
  "mkdir fs p parents exist_ok =
     (case os_mkdir fs p of
        Inr fs' \<Rightarrow> Inr fs'
      | Inl FileNotFoundError \<Rightarrow>
          (if \<not> parents \<or> p = [] then Inl FileNotFoundError
           else (case mkdir fs (butlast p) True True of
                   Inl e \<Rightarrow> Inl e
                 | Inr fs' \<Rightarrow> mkdir fs' p False exist_ok))
      | Inl e \<Rightarrow> (if \<not> exist_ok \<or> \<not> is_dir fs p then Inl e else Inr fs))"
  by pat_completeness auto
termination
  by (relation "measure (\<lambda>(fs, p, parents, exist_ok). 2 * length p + (if parents then 1 else 0))")
    auto

declare mkdir.simps [simp del]

text \<open>
  Line 57: \<^verbatim>\<open>open(p, "w", encoding="utf-8")\<close> creates the file or empties the one that
  is there.
\<close>

definition open_w :: "filesys \<Rightarrow> path \<Rightarrow> exn + filesys" where
  "open_w fs p =
     (case stat fs p of
        Some Dir \<Rightarrow> Inl IsADirectoryError
      | Some (File old) \<Rightarrow> Inr (AList.update p (File []) fs)
      | None \<Rightarrow>
          (case stat fs (butlast p) of
             None \<Rightarrow> Inl FileNotFoundError
           | Some (File t) \<Rightarrow> Inl NotADirectoryError
           | Some Dir \<Rightarrow> Inr (AList.update p (File []) fs)))"

text \<open>
  Line 58: \<^verbatim>\<open>f.write(s)\<close> encodes the whole text first. UTF-8 encodes every code point
  but the surrogates; a text with one raises and nothing is written, so the file stays
  empty. Otherwise the text is stored as it is (POSIX: no newline translation). The
  result is the exception, if any, and the disk that is left.
\<close>

definition utf8_encodable :: "str \<Rightarrow> bool" where
  "utf8_encodable s = list_all (\<lambda>c. c < 55296 \<or> (57344 \<le> c \<and> c < 1114112)) s"

definition save :: "filesys \<Rightarrow> path \<Rightarrow> str \<Rightarrow> exn option \<times> filesys" where
  "save fs p s =
     (case open_w fs p of
        Inl e \<Rightarrow> (Some e, fs)
      | Inr fs1 \<Rightarrow>
          if utf8_encodable s then (None, AList.update p (File s) fs1)
          else (Some UnicodeEncodeError, fs1))"

text \<open>
  \<^verbatim>\<open>list(d.glob("*"))\<close>: the entries directly inside \<open>d\<close>, files and directories alike,
  hidden ones included; nothing when \<open>d\<close> is not a directory.
\<close>

definition glob_star :: "filesys \<Rightarrow> path \<Rightarrow> path list" where
  "glob_star fs d =
     (if is_dir fs d then filter (\<lambda>p. p \<noteq> [] \<and> butlast p = d) (remdups (map fst fs)) else [])"

section \<open>The text of a list of strings\<close>

text \<open>
  Line 89 formats a list of names inside an f-string, which is \<^verbatim>\<open>repr\<close> of the list:
  brackets, the \<^verbatim>\<open>repr\<close> of each string, comma and space between them. \<^verbatim>\<open>repr\<close> of a
  string quotes it (with double quotes when it holds a single quote and no double one),
  and escapes the quote character, the backslash, control characters and the characters
  that the Unicode database does not call printable: that table, beyond ASCII, is the
  parameter \<open>P\<close>.
\<close>

fun hex :: "nat \<Rightarrow> nat \<Rightarrow> str" where
  "hex 0 n = []"
| "hex (Suc w) n = hex w (n div 16) @ [if n mod 16 < 10 then 48 + n mod 16 else 87 + n mod 16]"

definition repr_char :: "(pychar \<Rightarrow> bool) \<Rightarrow> pychar \<Rightarrow> pychar \<Rightarrow> str" where
  "repr_char P quote c =
     (if c = quote \<or> c = 92 then [92, c]
      else if c = 9 then [92, 116]
      else if c = 10 then [92, 110]
      else if c = 13 then [92, 114]
      else if c < 32 \<or> c = 127 then [92, 120] @ hex 2 c
      else if c < 127 then [c]
      else if P c then [c]
      else if c < 256 then [92, 120] @ hex 2 c
      else if c < 65536 then [92, 117] @ hex 4 c
      else [92, 85] @ hex 8 c)"

definition repr_str :: "(pychar \<Rightarrow> bool) \<Rightarrow> str \<Rightarrow> str" where
  "repr_str P s =
     (let quote = (if 39 \<in> set s \<and> 34 \<notin> set s then 34 else 39)
      in quote # concat (map (repr_char P quote) s) @ [quote])"

definition repr_list :: "(pychar \<Rightarrow> bool) \<Rightarrow> str list \<Rightarrow> str" where
  "repr_list P xs = lit ''['' @ join (lit '', '') (map (repr_str P) xs) @ lit '']''"

section \<open>The gateway\<close>

text \<open>
  What the invocation reads from outside: the root directory fixed when the module is
  loaded (lines 11 to 13), the clock, the search path's answer for the runner, the
  process environment, the two Unicode tables, and the child process. The child may
  change the disk in any way; it exits with a code and the bytes it wrote to its two
  streams, or is killed at the timeout, or cannot be started at all.
\<close>

type_synonym byte = nat

datatype process_end = Exited int "byte list" "byte list" | Killed | Not_started str

text \<open>
  What \<^verbatim>\<open>subprocess.run\<close> gives: a completed process with its exit code and the two
  captured texts, the timeout exception, or another exception, of which line 96 uses the
  text.
\<close>

datatype outcome = CompletedProcess int str str | TimeoutExpired | Exception str

record call =
  argv :: "str list"
  env :: "str \<rightharpoonup> str"
  cwd :: str
  timeout :: nat

record world =
  PROTO_ROOT :: path
  now :: datetime
  which_uv :: "str option"
  environ :: "str \<rightharpoonup> str"
  child :: "call \<Rightarrow> filesys \<Rightarrow> process_end \<times> filesys"
  decode_error :: "byte list \<Rightarrow> str"
  alnum_table :: "pychar \<Rightarrow> bool"
  printable_table :: "pychar \<Rightarrow> bool"

text \<open>
  With \<^verbatim>\<open>text=True\<close> the captured bytes are decoded with the locale's encoding, taken
  to be UTF-8, strictly: a byte sequence that is not UTF-8 raises. In the decoded text
  every line ending becomes a newline.
\<close>

definition cont :: "byte \<Rightarrow> bool" where
  "cont b = (128 \<le> b \<and> b < 192)"

function utf8_decode :: "byte list \<Rightarrow> str option" where
  "utf8_decode [] = Some []"
| "utf8_decode (b # bs) =
     (if b < 128 then map_option ((#) b) (utf8_decode bs)
      else if 194 \<le> b \<and> b < 224 \<and> 1 \<le> length bs \<and> cont (bs ! 0)
      then map_option ((#) ((b - 192) * 64 + (bs ! 0 - 128))) (utf8_decode (drop 1 bs))
      else if 224 \<le> b \<and> b < 240 \<and> 2 \<le> length bs \<and> cont (bs ! 0) \<and> cont (bs ! 1)
        \<and> 2048 \<le> (b - 224) * 4096 + (bs ! 0 - 128) * 64 + (bs ! 1 - 128)
        \<and> \<not> (55296 \<le> (b - 224) * 4096 + (bs ! 0 - 128) * 64 + (bs ! 1 - 128)
             \<and> (b - 224) * 4096 + (bs ! 0 - 128) * 64 + (bs ! 1 - 128) < 57344)
      then map_option ((#) ((b - 224) * 4096 + (bs ! 0 - 128) * 64 + (bs ! 1 - 128)))
             (utf8_decode (drop 2 bs))
      else if 240 \<le> b \<and> b < 245 \<and> 3 \<le> length bs
        \<and> cont (bs ! 0) \<and> cont (bs ! 1) \<and> cont (bs ! 2)
        \<and> 65536 \<le> (b - 240) * 262144 + (bs ! 0 - 128) * 4096 + (bs ! 1 - 128) * 64 + (bs ! 2 - 128)
        \<and> (b - 240) * 262144 + (bs ! 0 - 128) * 4096 + (bs ! 1 - 128) * 64 + (bs ! 2 - 128) < 1114112
      then map_option
             ((#) ((b - 240) * 262144 + (bs ! 0 - 128) * 4096 + (bs ! 1 - 128) * 64 + (bs ! 2 - 128)))
             (utf8_decode (drop 3 bs))
      else None)"
  by pat_completeness auto
termination
  by (relation "measure length") auto

declare utf8_decode.simps [simp del]

definition translate_newlines :: "str \<Rightarrow> str" where
  "translate_newlines s = replace [13] [10] (replace [13, 10] [10] s)"

definition decode_text :: "byte list \<Rightarrow> str option" where
  "decode_text bs = map_option translate_newlines (utf8_decode bs)"

text \<open>
  Lines 68 to 75, \<^verbatim>\<open>subprocess.run(..., capture_output=True, text=True, timeout=180)\<close>:
  the child runs; when it has exited, its output is decoded, the standard output first.
  The text of a decoding error is the library's and is read from the world.
\<close>

definition subprocess_run :: "world \<Rightarrow> call \<Rightarrow> filesys \<Rightarrow> outcome \<times> filesys" where
  "subprocess_run w c fs =
     (case child w c fs of
        (Exited returncode out err, fs') \<Rightarrow>
          (case decode_text out of
             None \<Rightarrow> (Exception (decode_error w out), fs')
           | Some stdout \<Rightarrow>
               (case decode_text err of
                  None \<Rightarrow> (Exception (decode_error w err), fs')
                | Some stderr \<Rightarrow> (CompletedProcess returncode stdout stderr, fs')))
      | (Killed, fs') \<Rightarrow> (TimeoutExpired, fs')
      | (Not_started msg, fs') \<Rightarrow> (Exception msg, fs'))"

text \<open>
  What the invocation does: it returns a string or lets an exception escape, it leaves a
  disk behind, and it may have started one child process.
\<close>

record result =
  returned :: "exn + str"
  disk :: filesys
  spawned :: "call option"

text \<open>Lines 47 to 51 and 56: the names.\<close>

definition workspace_name :: "world \<Rightarrow> str \<Rightarrow> str" where
  "workspace_name w purpose =
     strftime (now w) @ lit ''_'' @ safe_purpose (alnum_table w) purpose"

definition proto_dir :: "world \<Rightarrow> str \<Rightarrow> path" where
  "proto_dir w purpose = path_div (PROTO_ROOT w) (workspace_name w purpose)"

definition output_dir :: "world \<Rightarrow> str \<Rightarrow> path" where
  "output_dir w purpose = path_div (proto_dir w purpose) (lit ''outputs'')"

definition script_path :: "world \<Rightarrow> str \<Rightarrow> path" where
  "script_path w purpose = path_div (proto_dir w purpose) (lit ''script.py'')"

text \<open>
  Lines 53 to 58: the two directories and the script. None of the three steps is inside
  the \<^verbatim>\<open>try\<close>, so an exception of any of them leaves the function, and what the steps
  before it have created stays on the disk.
\<close>

definition create_workspace :: "world \<Rightarrow> filesys \<Rightarrow> str \<Rightarrow> str \<Rightarrow> exn option \<times> filesys" where
  "create_workspace w fs code purpose =
     (case mkdir fs (proto_dir w purpose) True True of
        Inl e \<Rightarrow> (Some e, fs)
      | Inr fs1 \<Rightarrow>
          (case mkdir fs1 (output_dir w purpose) True True of
             Inl e \<Rightarrow> (Some e, fs1)
           | Inr fs2 \<Rightarrow> save fs2 (script_path w purpose) code))"

text \<open>The three steps as a result: the exception, or the disk when all three succeed.\<close>

definition prepare :: "world \<Rightarrow> filesys \<Rightarrow> str \<Rightarrow> str \<Rightarrow> exn + filesys" where
  "prepare w fs code purpose =
     (case create_workspace w fs code purpose of
        (Some e, fs') \<Rightarrow> Inl e
      | (None, fs') \<Rightarrow> Inr fs')"

text \<open>Lines 62, 94 and 96: the three error strings.\<close>

definition CROSS :: pychar where "CROSS = 10060"
definition ROCKET :: pychar where "ROCKET = 128640"
definition CHART :: pychar where "CHART = 128202"
definition FOLDER :: pychar where "FOLDER = 128193"

definition not_found_error :: str where
  "not_found_error = CROSS # lit '' Error: 'uv' executable not found in PATH.''"

definition timeout_error :: str where
  "timeout_error = CROSS # lit '' Error: Execution timed out (180s).''"

definition system_error :: "str \<Rightarrow> str" where
  "system_error msg = CROSS # lit '' System Error: '' @ msg"

text \<open>Lines 64 to 75: the environment and the call.\<close>

definition OUTPUT_VAR :: str where
  "OUTPUT_VAR = lit ''PROTOTYPE_OUTPUT_DIR''"

definition child_env :: "world \<Rightarrow> str \<Rightarrow> (str \<rightharpoonup> str)" where
  "child_env w purpose = (environ w)(OUTPUT_VAR \<mapsto> str_path (output_dir w purpose))"

definition child_call :: "world \<Rightarrow> str \<Rightarrow> str \<Rightarrow> call" where
  "child_call w uv_path purpose =
     \<lparr>argv = [uv_path, lit ''run'', str_path (script_path w purpose)],
      env = child_env w purpose,
      cwd = str_path (proto_dir w purpose),
      timeout = 180\<rparr>"

text \<open>Lines 77 to 91: the sections of the report, joined by newlines.\<close>

definition status_line :: "int \<Rightarrow> str" where
  "status_line returncode =
     CHART # lit '' Status: '' @
     (if returncode = 0 then lit ''Success''
      else lit ''Failed (Exit Code: '' @ str_int returncode @ lit '')'')"

definition stderr_section :: "str \<Rightarrow> str" where
  "stderr_section err = 10 # lit ''[Standard Error]'' @ 10 # err"

definition artifacts_section :: "(pychar \<Rightarrow> bool) \<Rightarrow> path list \<Rightarrow> str" where
  "artifacts_section P artifacts =
     10 # FOLDER # lit '' Generated Artifacts in outputs/: '' @ repr_list P (map path_name artifacts)"

definition report :: "(pychar \<Rightarrow> bool) \<Rightarrow> path \<Rightarrow> int \<Rightarrow> str \<Rightarrow> str \<Rightarrow> path list \<Rightarrow> str list" where
  "report P dir returncode out err artifacts =
     [ROCKET # lit '' Prototype Directory Created: '' @ str_path dir,
      status_line returncode,
      10 # lit ''[Standard Output]'',
      if out \<noteq> [] then out else lit ''(No output)'']
     @ (if err \<noteq> [] then [stderr_section err] else [])
     @ (if artifacts \<noteq> [] then [artifacts_section P artifacts] else [])"

text \<open>The function, lines 47 to 96.\<close>

definition forge_and_run :: "world \<Rightarrow> filesys \<Rightarrow> str \<Rightarrow> str \<Rightarrow> result" where
  "forge_and_run w fs code purpose =
     (case create_workspace w fs code purpose of
        (Some e, fs') \<Rightarrow> \<lparr>returned = Inl e, disk = fs', spawned = None\<rparr>
      | (None, fs1) \<Rightarrow>
          (case which_uv w of
             None \<Rightarrow> \<lparr>returned = Inr not_found_error, disk = fs1, spawned = None\<rparr>
           | Some uv_path \<Rightarrow>
               if uv_path = [] then \<lparr>returned = Inr not_found_error, disk = fs1, spawned = None\<rparr>
               else
                 (let c = child_call w uv_path purpose
                  in case subprocess_run w c fs1 of
                       (CompletedProcess returncode out err, fs2) \<Rightarrow>
                         \<lparr>returned = Inr (join [10]
                            (report (printable_table w) (proto_dir w purpose) returncode out err
                               (glob_star fs2 (output_dir w purpose)))),
                          disk = fs2, spawned = Some c\<rparr>
                     | (TimeoutExpired, fs2) \<Rightarrow>
                         \<lparr>returned = Inr timeout_error, disk = fs2, spawned = Some c\<rparr>
                     | (Exception msg, fs2) \<Rightarrow>
                         \<lparr>returned = Inr (system_error msg), disk = fs2, spawned = Some c\<rparr>)))"

section \<open>Example inputs\<close>

text \<open>
  A clock reading, a root directory with its parent on the disk, and a child process that
  saves one file where the environment variable points, prints a line and exits with 0.
  A second child process puts an empty regular file in the place of the directory that
  the environment variable points to, prints nothing and exits with 0.
\<close>

definition example_now :: datetime where
  "example_now = \<lparr>year = 2026, month = 1, day = 2, hour = 3, minute = 4, second = 5,
     microsecond = 678\<rparr>"

definition example_script :: "call \<Rightarrow> filesys \<Rightarrow> process_end \<times> filesys" where
  "example_script c fs =
     (case env c OUTPUT_VAR of
        None \<Rightarrow> (Exited 1 [] (lit ''KeyError''), fs)
      | Some d \<Rightarrow>
          (Exited 0 (lit ''done'') [],
           AList.update (parse_parts d @ [lit ''a.csv'']) (File (lit ''1,2'')) fs))"

definition example_spoiler :: "call \<Rightarrow> filesys \<Rightarrow> process_end \<times> filesys" where
  "example_spoiler c fs =
     (case env c OUTPUT_VAR of
        None \<Rightarrow> (Exited 1 [] (lit ''KeyError''), fs)
      | Some d \<Rightarrow> (Exited 0 [] [], AList.update (parse_parts d) (File []) fs))"

definition example_world :: world where
  "example_world =
     \<lparr>PROTO_ROOT = [lit ''home'', lit ''.hidden_prototype''],
      now = example_now,
      which_uv = Some (lit ''/bin/uv''),
      environ = [lit ''HOME'' \<mapsto> lit ''/home''],
      child = example_script,
      decode_error = (\<lambda>bs. lit ''invalid start byte''),
      alnum_table = (\<lambda>c. False),
      printable_table = (\<lambda>c. True)\<rparr>"

definition example_disk :: filesys where
  "example_disk = [([lit ''home''], Dir), ([lit ''home'', lit ''.hidden_prototype''], Dir)]"

section \<open>Properties of the sanitized purpose\<close>

lemma lit_space: "lit '' '' = [32]"
  by (simp add: lit_def)

lemma lit_underscore: "lit ''_'' = [95]"
  by (simp add: lit_def)

lemma keeps_iff: "keeps U c \<longleftrightarrow> isalnum U c \<or> c = 32 \<or> c = 95"
  by (auto simp: keeps_def lit_space lit_underscore)

lemma join_singletons: "join [] (map (\<lambda>c. [c]) s) = s"
  by (induction s rule: induct_list012) simp_all

lemma replace_char: "replace [a] [b] s = map (\<lambda>c. if c = a then b else c) s"
  by (induction s) auto

lemma safe_purpose_eq:
  "safe_purpose U p = take 30 (map (\<lambda>c. if c = 32 then 95 else c) (filter (keeps U) p))"
  by (simp add: safe_purpose_def join_singletons lit_space lit_underscore replace_char)

text \<open>
  C3. The sanitized purpose computed by line 48 is the one the specification describes:
  filter, then spaces to underscores, then the first 30 characters.
\<close>

theorem C3_safe_purpose_refines_spec: "safe_purpose U purpose = spec_sanitize U purpose"
proof -
  have "filter (keeps U) purpose = filter (\<lambda>c. isalnum U c \<or> c = 32 \<or> c = 95) purpose"
    by (rule filter_cong) (simp_all add: keeps_iff)
  then show ?thesis
    by (simp add: safe_purpose_eq spec_sanitize_def)
qed

theorem C3_safe_purpose_witness:
  "safe_purpose (\<lambda>c. False) (lit ''plot: a/b test'') = lit ''plot_ab_test''"
  using C3_safe_purpose_refines_spec [of "\<lambda>c. False" "lit ''plot: a/b test''"]
  by (simp add: spec_sanitize_def lit_def isalnum_def)

section \<open>The workspace is a child of the root\<close>

lemma keeps_ascii_punct: "\<not> keeps U 46" "\<not> keeps U 47" "\<not> keeps U 92"
  by (simp_all add: keeps_iff isalnum_def)

lemma set_safe_purpose: "c \<in> set (safe_purpose U p) \<Longrightarrow> c \<noteq> 32 \<and> (keeps U c \<or> c = 95)"
  by (auto simp: safe_purpose_eq dest!: in_set_takeD split: if_splits)

lemma safe_purpose_no_separator:
  "46 \<notin> set (safe_purpose U p)" "47 \<notin> set (safe_purpose U p)" "92 \<notin> set (safe_purpose U p)"
  using set_safe_purpose [of _ U p] keeps_ascii_punct [of U] by fastforce+

lemma length_safe_purpose: "length (safe_purpose U p) \<le> 30"
  by (simp add: safe_purpose_eq)

lemma set_digits: "set (digits n) \<subseteq> {48..57}"
proof (induction n rule: digits.induct)
  case (1 n)
  show ?case
  proof (cases "n < 10")
    case True
    then show ?thesis by (subst digits.simps) auto
  next
    case False
    have "n mod 10 < 10" by simp
    then have "48 + n mod 10 \<in> {48..57}" by auto
    with False 1 show ?thesis by (subst digits.simps) auto
  qed
qed

lemma set_zfill: "set (zfill w s) \<subseteq> insert 48 (set s)"
  by (auto simp: zfill_def)

lemma set_zfill_digits: "set (zfill w (digits n)) \<subseteq> {48..57}"
  using set_zfill [of w "digits n"] set_digits [of n] by auto

lemma set_strftime: "set (strftime t) \<subseteq> insert 95 {48..57}"
  using set_zfill_digits by (auto simp: strftime_def lit_underscore)

lemma split_on_absent: "sep \<notin> set s \<Longrightarrow> split_on sep s = [s]"
  by (induction s) auto

lemma path_div_plain:
  assumes "47 \<notin> set s" "s \<noteq> []" "s \<noteq> lit ''.''"
  shows "path_div p s = p @ [s]"
proof -
  from assms(1,2) have "hd s \<noteq> 47" by (cases s) auto
  with assms show ?thesis
    by (simp add: path_div_def parse_parts_def split_on_absent)
qed

lemma workspace_name_chars: "set (workspace_name w purpose) \<subseteq> insert 95 ({48..57} \<union> set (safe_purpose (alnum_table w) purpose))"
  using set_strftime [of "now w"] by (auto simp: workspace_name_def lit_underscore)

lemma workspace_name_underscore: "95 \<in> set (workspace_name w purpose)"
  by (simp add: workspace_name_def lit_underscore)

lemma workspace_name_plain:
  "47 \<notin> set (workspace_name w purpose)" "workspace_name w purpose \<noteq> []"
  "workspace_name w purpose \<noteq> lit ''.''"
proof -
  show "47 \<notin> set (workspace_name w purpose)"
    using workspace_name_chars [of w purpose] safe_purpose_no_separator(2) [of "alnum_table w" purpose]
    by auto
  show "workspace_name w purpose \<noteq> []"
    using workspace_name_underscore [of w purpose] by auto
  show "workspace_name w purpose \<noteq> lit ''.''"
    using workspace_name_underscore [of w purpose] by (auto simp: lit_def)
qed

lemma proto_dir_eq: "proto_dir w purpose = PROTO_ROOT w @ [workspace_name w purpose]"
  by (simp add: proto_dir_def path_div_plain workspace_name_plain)

lemma output_dir_eq: "output_dir w purpose = PROTO_ROOT w @ [workspace_name w purpose, lit ''outputs'']"
  by (simp add: output_dir_def proto_dir_eq path_div_def parse_parts_def lit_def)

lemma script_path_eq: "script_path w purpose = PROTO_ROOT w @ [workspace_name w purpose, lit ''script.py'']"
  by (simp add: script_path_def proto_dir_eq path_div_def parse_parts_def lit_def)

section \<open>Creating the workspace\<close>

lemma stat_update:
  "stat (AList.update p v fs) q = (if q = [] then Some Dir else if q = p then Some v else stat fs q)"
  by (simp add: stat_def update_conv')

lemma stat_Nil: "stat fs [] = Some Dir"
  by (simp add: stat_def)

lemma os_mkdir_Inr:
  "os_mkdir fs p = Inr fs' \<longleftrightarrow> stat fs p = None \<and> is_dir fs (butlast p) \<and> fs' = AList.update p Dir fs"
  by (auto simp: os_mkdir_def is_dir_def split: option.splits node.splits)

lemma os_mkdir_not_found:
  "os_mkdir fs p = Inl FileNotFoundError \<Longrightarrow> stat fs p = None \<and> p \<noteq> []"
  by (auto simp: os_mkdir_def stat_def split: option.splits node.splits if_splits)

lemma mkdir_existing: "is_dir fs p \<Longrightarrow> mkdir fs p parents True = Inr fs"
  by (subst mkdir.simps) (simp add: os_mkdir_def is_dir_def)

lemma mkdir_fresh:
  "stat fs p = None \<Longrightarrow> is_dir fs (butlast p) \<Longrightarrow> mkdir fs p parents ok = Inr (AList.update p Dir fs)"
  by (subst mkdir.simps) (simp add: os_mkdir_def is_dir_def)

lemma mkdir_is_dir: "mkdir fs p parents ok = Inr fs' \<Longrightarrow> is_dir fs' p"
proof (induction fs p parents ok arbitrary: fs' rule: mkdir.induct)
  case (1 fs p parents exist_ok)
  show ?case
  proof (cases "os_mkdir fs p")
    case (Inr fs1)
    with "1.prems" have "fs' = fs1" by (subst (asm) mkdir.simps) simp
    with Inr show ?thesis by (auto simp: os_mkdir_Inr is_dir_def stat_update)
  next
    case (Inl e)
    show ?thesis
    proof (cases "e = FileNotFoundError")
      case True
      with Inl "1.prems" obtain fs1 where
        a: "parents" "p \<noteq> []" and b: "mkdir fs (butlast p) True True = Inr fs1"
        and c: "mkdir fs1 p False exist_ok = Inr fs'"
        by (subst (asm) mkdir.simps) (auto split: if_splits sum.splits)
      from "1.IH"(2) [OF Inl True _ b c] a show ?thesis by simp
    next
      case False
      with Inl "1.prems" have "is_dir fs p \<and> fs' = fs"
        by (subst (asm) mkdir.simps) (cases e; auto split: if_splits)
      then show ?thesis by simp
    qed
  qed
qed

lemma mkdir_keeps: "mkdir fs p parents ok = Inr fs' \<Longrightarrow> stat fs q = Some n \<Longrightarrow> stat fs' q = Some n"
proof (induction fs p parents ok arbitrary: fs' rule: mkdir.induct)
  case (1 fs p parents exist_ok)
  show ?case
  proof (cases "os_mkdir fs p")
    case (Inr fs1)
    with "1.prems" have "fs' = fs1" by (subst (asm) mkdir.simps) simp
    with Inr "1.prems"(2) show ?thesis by (auto simp: os_mkdir_Inr stat_update stat_Nil)
  next
    case (Inl e)
    show ?thesis
    proof (cases "e = FileNotFoundError")
      case True
      with Inl "1.prems" obtain fs1 where
        a: "parents" "p \<noteq> []" and b: "mkdir fs (butlast p) True True = Inr fs1"
        and c: "mkdir fs1 p False exist_ok = Inr fs'"
        by (subst (asm) mkdir.simps) (auto split: if_splits sum.splits)
      from "1.IH"(1) [OF Inl True _ b "1.prems"(2)] a have "stat fs1 q = Some n" by simp
      from "1.IH"(2) [OF Inl True _ b c this] a show ?thesis by simp
    next
      case False
      with Inl "1.prems" have "fs' = fs"
        by (subst (asm) mkdir.simps) (cases e; auto split: if_splits)
      with "1.prems" show ?thesis by simp
    qed
  qed
qed

lemma mkdir_frame: "mkdir fs p parents ok = Inr fs' \<Longrightarrow> \<not> prefix q p \<Longrightarrow> stat fs' q = stat fs q"
proof (induction fs p parents ok arbitrary: fs' rule: mkdir.induct)
  case (1 fs p parents exist_ok)
  show ?case
  proof (cases "os_mkdir fs p")
    case (Inr fs1)
    with "1.prems" have "fs' = fs1" by (subst (asm) mkdir.simps) simp
    with Inr "1.prems"(2) show ?thesis by (auto simp: os_mkdir_Inr stat_update)
  next
    case (Inl e)
    show ?thesis
    proof (cases "e = FileNotFoundError")
      case True
      with Inl "1.prems" obtain fs1 where
        a: "parents" "p \<noteq> []" and b: "mkdir fs (butlast p) True True = Inr fs1"
        and c: "mkdir fs1 p False exist_ok = Inr fs'"
        by (subst (asm) mkdir.simps) (auto split: if_splits sum.splits)
      have "\<not> prefix q (butlast p)"
        using "1.prems"(2) by (meson prefix_order.trans prefixeq_butlast)
      from "1.IH"(1) [OF Inl True _ b this] a have "stat fs1 q = stat fs q" by simp
      moreover from "1.IH"(2) [OF Inl True _ b c "1.prems"(2)] a have "stat fs' q = stat fs1 q" by simp
      ultimately show ?thesis by simp
    next
      case False
      with Inl "1.prems" have "fs' = fs"
        by (subst (asm) mkdir.simps) (cases e; auto split: if_splits)
      then show ?thesis by simp
    qed
  qed
qed

lemma open_w_Inr:
  "open_w fs p = Inr fs' \<Longrightarrow> fs' = AList.update p (File []) fs \<and> p \<noteq> [] \<and> stat fs p \<noteq> Some Dir"
  by (auto simp: open_w_def stat_def split: option.splits node.splits if_splits)

lemma open_w_ok:
  "is_dir fs (butlast p) \<Longrightarrow> stat fs p \<noteq> Some Dir \<Longrightarrow> open_w fs p = Inr (AList.update p (File []) fs)"
  by (auto simp: open_w_def is_dir_def split: option.splits node.splits)

lemma save_None:
  "save fs p s = (None, fs') \<Longrightarrow>
   fs' = AList.update p (File s) fs \<and> p \<noteq> [] \<and> stat fs p \<noteq> Some Dir \<and> utf8_encodable s"
  by (auto simp: save_def split: sum.splits if_splits dest!: open_w_Inr)

lemma save_ok:
  "is_dir fs (butlast p) \<Longrightarrow> stat fs p \<noteq> Some Dir \<Longrightarrow> utf8_encodable s \<Longrightarrow>
   save fs p s = (None, AList.update p (File s) fs)"
  by (simp add: save_def open_w_ok)

lemma save_unencodable:
  "is_dir fs (butlast p) \<Longrightarrow> stat fs p \<noteq> Some Dir \<Longrightarrow> \<not> utf8_encodable s \<Longrightarrow>
   save fs p s = (Some UnicodeEncodeError, AList.update p (File []) fs)"
  by (simp add: save_def open_w_ok)

lemma utf8_encodable_lit: "utf8_encodable (lit s)"
proof -
  have "of_char c < (55296 :: nat)" for c
  proof -
    have "(of_char c :: nat) mod 256 < 256" by simp
    then have "(of_char c :: nat) < 256" by (simp only: of_char_mod_256)
    then show ?thesis by linarith
  qed
  then show ?thesis
    by (simp add: utf8_encodable_def lit_def list_all_iff)
qed

lemma prepare_Inr_iff:
  "prepare w fs code purpose = Inr fs1 \<longleftrightarrow> create_workspace w fs code purpose = (None, fs1)"
  by (auto simp: prepare_def split: prod.splits option.splits)

lemma prepare_Inl_iff:
  "prepare w fs code purpose = Inl e \<longleftrightarrow> (\<exists>fs'. create_workspace w fs code purpose = (Some e, fs'))"
  by (auto simp: prepare_def split: prod.splits option.splits)

lemma prepare_steps:
  assumes "prepare w fs code purpose = Inr fs'"
  obtains fs1 fs2 where
    "mkdir fs (proto_dir w purpose) True True = Inr fs1"
    "mkdir fs1 (output_dir w purpose) True True = Inr fs2"
    "save fs2 (script_path w purpose) code = (None, fs')"
  using assms by (auto simp: prepare_Inr_iff create_workspace_def split: sum.splits)

lemma prepare_Inr:
  assumes "prepare w fs code purpose = Inr fs'"
  shows "is_dir fs' (proto_dir w purpose)" "is_dir fs' (output_dir w purpose)"
    "stat fs' (script_path w purpose) = Some (File code)"
proof -
  from assms obtain fs1 fs2 where
    a: "mkdir fs (proto_dir w purpose) True True = Inr fs1" and
    b: "mkdir fs1 (output_dir w purpose) True True = Inr fs2" and
    c: "save fs2 (script_path w purpose) code = (None, fs')"
    by (rule prepare_steps)
  from c have fs': "fs' = AList.update (script_path w purpose) (File code) fs2"
    by (simp add: save_None)
  have "is_dir fs1 (proto_dir w purpose)" using a by (rule mkdir_is_dir)
  then have "is_dir fs2 (proto_dir w purpose)"
    using b by (simp add: is_dir_def mkdir_keeps)
  then show "is_dir fs' (proto_dir w purpose)"
    by (simp add: fs' is_dir_def stat_update proto_dir_eq script_path_eq)
  have "is_dir fs2 (output_dir w purpose)" using b by (rule mkdir_is_dir)
  then show "is_dir fs' (output_dir w purpose)"
    by (simp add: fs' is_dir_def stat_update output_dir_eq script_path_eq lit_def)
  show "stat fs' (script_path w purpose) = Some (File code)"
    by (simp add: fs' stat_update script_path_eq)
qed

lemma prepare_encodable: "prepare w fs code purpose = Inr fs' \<Longrightarrow> utf8_encodable code"
  by (erule prepare_steps) (simp add: save_None)

lemma create_workspace_again:
  assumes "is_dir fs (proto_dir w purpose)" "is_dir fs (output_dir w purpose)"
    "stat fs (script_path w purpose) \<noteq> Some Dir"
  shows "create_workspace w fs code purpose =
    (if utf8_encodable code
     then (None, AList.update (script_path w purpose) (File code) fs)
     else (Some UnicodeEncodeError, AList.update (script_path w purpose) (File []) fs))"
proof -
  have "butlast (script_path w purpose) = proto_dir w purpose"
    by (simp add: script_path_eq proto_dir_eq butlast_append)
  with assms show ?thesis
    by (simp add: create_workspace_def mkdir_existing save_ok save_unencodable)
qed

lemma prepare_again:
  assumes "is_dir fs (proto_dir w purpose)" "is_dir fs (output_dir w purpose)"
    "stat fs (script_path w purpose) \<noteq> Some Dir" "utf8_encodable code"
  shows "prepare w fs code purpose = Inr (AList.update (script_path w purpose) (File code) fs)"
  using create_workspace_again [OF assms(1,2,3)] assms(4) by (simp add: prepare_Inr_iff)

section \<open>The invocation\<close>

lemma example_name:
  assumes "now w = example_now" "alnum_table w = (\<lambda>c. False)"
  shows "workspace_name w (lit ''demo'') = lit ''20260102_030405_demo''"
  using assms
  by (simp add: workspace_name_def example_now_def strftime_def zfill_def
      digits.simps safe_purpose_eq keeps_iff isalnum_def lit_def)

lemma example_paths:
  assumes "PROTO_ROOT w = [lit ''home'', lit ''.hidden_prototype'']"
    "now w = example_now" "alnum_table w = (\<lambda>c. False)"
  shows "proto_dir w (lit ''demo'') =
      [lit ''home'', lit ''.hidden_prototype'', lit ''20260102_030405_demo'']"
    "output_dir w (lit ''demo'') =
      [lit ''home'', lit ''.hidden_prototype'', lit ''20260102_030405_demo'', lit ''outputs'']"
    "script_path w (lit ''demo'') =
      [lit ''home'', lit ''.hidden_prototype'', lit ''20260102_030405_demo'', lit ''script.py'']"
  using assms by (simp_all add: proto_dir_eq output_dir_eq script_path_eq example_name)

lemma example_prepare:
  assumes "PROTO_ROOT w = [lit ''home'', lit ''.hidden_prototype'']"
    "now w = example_now" "alnum_table w = (\<lambda>c. False)"
  shows "prepare w example_disk (lit code) (lit ''demo'') =
     Inr (example_disk @
       [([lit ''home'', lit ''.hidden_prototype'', lit ''20260102_030405_demo''], Dir),
        ([lit ''home'', lit ''.hidden_prototype'', lit ''20260102_030405_demo'', lit ''outputs''], Dir),
        ([lit ''home'', lit ''.hidden_prototype'', lit ''20260102_030405_demo'', lit ''script.py''],
         File (lit code))])"
proof -
  let ?d = "[lit ''home'', lit ''.hidden_prototype'', lit ''20260102_030405_demo'']"
  let ?o = "[lit ''home'', lit ''.hidden_prototype'', lit ''20260102_030405_demo'', lit ''outputs'']"
  let ?s = "[lit ''home'', lit ''.hidden_prototype'', lit ''20260102_030405_demo'', lit ''script.py'']"
  have 1: "mkdir example_disk ?d True True = Inr (example_disk @ [(?d, Dir)])"
    by (subst mkdir_fresh) (simp_all add: is_dir_def stat_def example_disk_def lit_def)
  have 2: "mkdir (example_disk @ [(?d, Dir)]) ?o True True =
      Inr (example_disk @ [(?d, Dir), (?o, Dir)])"
    by (subst mkdir_fresh) (simp_all add: is_dir_def stat_def example_disk_def lit_def)
  have 3: "save (example_disk @ [(?d, Dir), (?o, Dir)]) ?s (lit code) =
      (None, example_disk @ [(?d, Dir), (?o, Dir), (?s, File (lit code))])"
    by (subst save_ok) (simp_all add: is_dir_def stat_def example_disk_def utf8_encodable_lit,
        simp_all add: lit_def)
  show ?thesis
    by (simp only: prepare_def create_workspace_def example_paths [OF assms] 1 2 3 sum.case
        prod.case option.case)
qed

lemma example_blocked:
  assumes "PROTO_ROOT w = [lit ''home'', lit ''.hidden_prototype'']"
    "now w = example_now" "alnum_table w = (\<lambda>c. False)"
  shows "prepare w
     (example_disk @ [([lit ''home'', lit ''.hidden_prototype'', lit ''20260102_030405_demo''], File [])])
     code (lit ''demo'') = Inl FileExistsError"
proof -
  let ?d = "[lit ''home'', lit ''.hidden_prototype'', lit ''20260102_030405_demo'']"
  have 1: "mkdir (example_disk @ [(?d, File [])]) ?d True True = Inl FileExistsError"
    by (subst mkdir.simps) (simp add: os_mkdir_def is_dir_def stat_def example_disk_def lit_def)
  show ?thesis
    by (simp only: prepare_def create_workspace_def example_paths [OF assms] 1 sum.case
        prod.case option.case)
qed

lemma forge_and_run_raises:
  "prepare w fs code purpose = Inl e \<Longrightarrow>
   returned (forge_and_run w fs code purpose) = Inl e
   \<and> spawned (forge_and_run w fs code purpose) = None"
  by (auto simp: forge_and_run_def prepare_Inl_iff)

lemma forge_and_run_raises_disk:
  "create_workspace w fs code purpose = (Some e, fs') \<Longrightarrow>
   forge_and_run w fs code purpose = \<lparr>returned = Inl e, disk = fs', spawned = None\<rparr>"
  by (simp add: forge_and_run_def)

lemma forge_and_run_no_runner:
  "prepare w fs code purpose = Inr fs1 \<Longrightarrow> which_uv w = None \<or> which_uv w = Some [] \<Longrightarrow>
   forge_and_run w fs code purpose = \<lparr>returned = Inr not_found_error, disk = fs1, spawned = None\<rparr>"
  by (auto simp: forge_and_run_def prepare_Inr_iff)

lemma forge_and_run_completed:
  "prepare w fs code purpose = Inr fs1 \<Longrightarrow> which_uv w = Some uv \<Longrightarrow> uv \<noteq> [] \<Longrightarrow>
   subprocess_run w (child_call w uv purpose) fs1 = (CompletedProcess rc out err, fs2) \<Longrightarrow>
   forge_and_run w fs code purpose =
     \<lparr>returned = Inr (join [10] (report (printable_table w) (proto_dir w purpose) rc out err
         (glob_star fs2 (output_dir w purpose)))),
      disk = fs2, spawned = Some (child_call w uv purpose)\<rparr>"
  by (simp add: forge_and_run_def prepare_Inr_iff)

lemma forge_and_run_timeout:
  "prepare w fs code purpose = Inr fs1 \<Longrightarrow> which_uv w = Some uv \<Longrightarrow> uv \<noteq> [] \<Longrightarrow>
   subprocess_run w (child_call w uv purpose) fs1 = (TimeoutExpired, fs2) \<Longrightarrow>
   forge_and_run w fs code purpose =
     \<lparr>returned = Inr timeout_error, disk = fs2, spawned = Some (child_call w uv purpose)\<rparr>"
  by (simp add: forge_and_run_def prepare_Inr_iff)


lemma forge_and_run_spawned:
  "spawned (forge_and_run w fs code purpose) = Some c \<Longrightarrow>
   \<exists>uv. which_uv w = Some uv \<and> uv \<noteq> [] \<and> c = child_call w uv purpose"
  by (auto simp: forge_and_run_def Let_def split: sum.splits option.splits if_splits prod.splits outcome.splits)

lemma forge_and_run_returns:
  "prepare w fs code purpose = Inr fs1 \<Longrightarrow> \<exists>s. returned (forge_and_run w fs code purpose) = Inr s"
  by (auto simp: forge_and_run_def prepare_Inr_iff Let_def
      split: sum.splits option.splits if_splits prod.splits outcome.splits)

text \<open>
  C5, as amended. When the runner is absent from the search path and the creation of the
  workspace directory, of its output subdirectory and of the script raises nothing, the
  call returns the fixed not-found string without starting a process, and the disk it
  leaves holds the two directories and the script with the code as it was given.
\<close>

theorem C5_runner_absent_after_creation:
  assumes "which_uv w = None" and "prepare w fs code purpose = Inr fs1"
  shows "returned (forge_and_run w fs code purpose) = Inr not_found_error
    \<and> spawned (forge_and_run w fs code purpose) = None
    \<and> disk (forge_and_run w fs code purpose) = fs1
    \<and> is_dir fs1 (proto_dir w purpose)
    \<and> is_dir fs1 (output_dir w purpose)
    \<and> stat fs1 (script_path w purpose) = Some (File code)"
  using assms by (simp add: forge_and_run_no_runner prepare_Inr)

theorem C5_runner_absent_witness:
  "which_uv (example_world\<lparr>which_uv := None\<rparr>) = None
   \<and> returned (forge_and_run (example_world\<lparr>which_uv := None\<rparr>) example_disk
        (lit ''print(1)'') (lit ''demo'')) = Inr not_found_error
   \<and> stat (disk (forge_and_run (example_world\<lparr>which_uv := None\<rparr>) example_disk
        (lit ''print(1)'') (lit ''demo'')))
        [lit ''home'', lit ''.hidden_prototype'', lit ''20260102_030405_demo'', lit ''script.py'']
      = Some (File (lit ''print(1)''))"
proof -
  let ?w = "example_world\<lparr>which_uv := None\<rparr>"
  have a: "PROTO_ROOT ?w = [lit ''home'', lit ''.hidden_prototype'']" "now ?w = example_now"
    "alnum_table ?w = (\<lambda>c. False)"
    by (simp_all add: example_world_def)
  have u: "which_uv ?w = None" by simp
  from C5_runner_absent_after_creation [OF u example_prepare [OF a]] example_paths(3) [OF a] u
  show ?thesis by simp
qed

theorem C5_blocked_workspace_counterexample:
  "which_uv (example_world\<lparr>which_uv := None\<rparr>) = None
   \<and> returned (forge_and_run (example_world\<lparr>which_uv := None\<rparr>)
        (example_disk @
          [([lit ''home'', lit ''.hidden_prototype'', lit ''20260102_030405_demo''], File [])])
        (lit ''print(1)'') (lit ''demo'')) = Inl FileExistsError
   \<and> returned (forge_and_run (example_world\<lparr>which_uv := None\<rparr>)
        (example_disk @
          [([lit ''home'', lit ''.hidden_prototype'', lit ''20260102_030405_demo''], File [])])
        (lit ''print(1)'') (lit ''demo'')) \<noteq> Inr not_found_error"
proof -
  let ?w = "example_world\<lparr>which_uv := None\<rparr>"
  have a: "PROTO_ROOT ?w = [lit ''home'', lit ''.hidden_prototype'']" "now ?w = example_now"
    "alnum_table ?w = (\<lambda>c. False)"
    by (simp_all add: example_world_def)
  show ?thesis
    by (simp add: forge_and_run_raises [OF example_blocked [OF a]])
qed

section \<open>The child environment and colliding workspaces\<close>

lemma forge_and_run_spawns:
  "prepare w fs code purpose = Inr fs1 \<Longrightarrow> which_uv w = Some uv \<Longrightarrow> uv \<noteq> [] \<Longrightarrow>
   spawned (forge_and_run w fs code purpose) = Some (child_call w uv purpose)"
  by (auto simp: forge_and_run_def prepare_Inr_iff Let_def split: prod.splits outcome.splits)

lemma str_path_absolute: "hd (str_path p) = 47"
  by (cases p) (simp_all add: str_path_def lit_def)

lemma example_output_text:
  "str_path [lit ''home'', lit ''.hidden_prototype'', lit ''20260102_030405_demo'', lit ''outputs'']
     = lit ''/home/.hidden_prototype/20260102_030405_demo/outputs''"
  by (simp add: str_path_def lit_def)

text \<open>
  C7, as amended. In every invocation that starts the child process, the environment
  passed to it is the inherited one with the variable PROTOTYPE_OUTPUT_DIR set to the
  absolute path of the invocation's output directory. Every other inherited variable is
  passed as it is; when the inherited environment does not define PROTOTYPE_OUTPUT_DIR,
  the child's environment has exactly that one variable more.
\<close>

theorem C7_child_environment:
  assumes "spawned (forge_and_run w fs code purpose) = Some c"
  shows "env c = (environ w)(OUTPUT_VAR \<mapsto> str_path (output_dir w purpose))
    \<and> env c OUTPUT_VAR = Some (str_path (output_dir w purpose))
    \<and> hd (str_path (output_dir w purpose)) = 47
    \<and> (\<forall>k. k \<noteq> OUTPUT_VAR \<longrightarrow> env c k = environ w k)
    \<and> (environ w OUTPUT_VAR = None \<longrightarrow>
         OUTPUT_VAR \<notin> dom (environ w) \<and> dom (env c) = insert OUTPUT_VAR (dom (environ w)))"
proof -
  from forge_and_run_spawned [OF assms] obtain uv where "c = child_call w uv purpose"
    by blast
  then have "env c = (environ w)(OUTPUT_VAR \<mapsto> str_path (output_dir w purpose))"
    by (simp add: child_call_def child_env_def)
  then show ?thesis
    by (auto simp: str_path_absolute)
qed

theorem C7_child_environment_witness:
  "map_option (\<lambda>c. env c (lit ''HOME''))
     (spawned (forge_and_run example_world example_disk (lit ''print(1)'') (lit ''demo'')))
     = Some (Some (lit ''/home''))
   \<and> map_option (\<lambda>c. env c OUTPUT_VAR)
     (spawned (forge_and_run example_world example_disk (lit ''print(1)'') (lit ''demo'')))
     = Some (Some (lit ''/home/.hidden_prototype/20260102_030405_demo/outputs''))"
proof -
  let ?w = "example_world"
  have a: "PROTO_ROOT ?w = [lit ''home'', lit ''.hidden_prototype'']" "now ?w = example_now"
    "alnum_table ?w = (\<lambda>c. False)"
    by (simp_all add: example_world_def)
  have u: "which_uv ?w = Some (lit ''/bin/uv'')" "lit ''/bin/uv'' \<noteq> []"
    by (simp_all add: example_world_def lit_def)
  have e: "environ ?w (lit ''HOME'') = Some (lit ''/home'')" "lit ''HOME'' \<noteq> OUTPUT_VAR"
    by (simp_all add: example_world_def OUTPUT_VAR_def lit_def)
  note s = forge_and_run_spawns [OF example_prepare [OF a] u]
  from C7_child_environment [OF s] e show ?thesis
    by (simp add: s example_paths(2) [OF a] example_output_text)
qed

theorem C7_inherited_variable_replaced_counterexample:
  "environ (example_world\<lparr>environ := [OUTPUT_VAR \<mapsto> lit ''/tmp/x'']\<rparr>) OUTPUT_VAR
     = Some (lit ''/tmp/x'')
   \<and> map_option (\<lambda>c. env c OUTPUT_VAR)
     (spawned (forge_and_run (example_world\<lparr>environ := [OUTPUT_VAR \<mapsto> lit ''/tmp/x'']\<rparr>)
        example_disk (lit ''print(1)'') (lit ''demo'')))
     = Some (Some (lit ''/home/.hidden_prototype/20260102_030405_demo/outputs''))
   \<and> map_option (\<lambda>c. dom (env c))
     (spawned (forge_and_run (example_world\<lparr>environ := [OUTPUT_VAR \<mapsto> lit ''/tmp/x'']\<rparr>)
        example_disk (lit ''print(1)'') (lit ''demo'')))
     = Some (dom (environ (example_world\<lparr>environ := [OUTPUT_VAR \<mapsto> lit ''/tmp/x'']\<rparr>)))"
proof -
  let ?w = "example_world\<lparr>environ := [OUTPUT_VAR \<mapsto> lit ''/tmp/x'']\<rparr>"
  have a: "PROTO_ROOT ?w = [lit ''home'', lit ''.hidden_prototype'']" "now ?w = example_now"
    "alnum_table ?w = (\<lambda>c. False)"
    by (simp_all add: example_world_def)
  have u: "which_uv ?w = Some (lit ''/bin/uv'')" "lit ''/bin/uv'' \<noteq> []"
    by (simp_all add: example_world_def lit_def)
  note s = forge_and_run_spawns [OF example_prepare [OF a] u]
  show ?thesis
    by (simp add: s child_call_def child_env_def example_paths(2) [OF a] example_output_text)
qed

lemma strftime_same_second: "same_second s t \<Longrightarrow> strftime s = strftime t"
  by (simp add: same_second_def strftime_def)

lemma same_second_paths:
  assumes "PROTO_ROOT w1 = PROTO_ROOT w2" and "same_second (now w1) (now w2)"
    and "safe_purpose (alnum_table w1) p1 = safe_purpose (alnum_table w2) p2"
  shows "proto_dir w1 p1 = proto_dir w2 p2" "output_dir w1 p1 = output_dir w2 p2"
    "script_path w1 p1 = script_path w2 p2"
proof -
  have "workspace_name w1 p1 = workspace_name w2 p2"
    using assms(2,3) by (simp add: workspace_name_def strftime_same_second)
  with assms(1) show p: "proto_dir w1 p1 = proto_dir w2 p2"
    by (simp add: proto_dir_eq)
  then show "output_dir w1 p1 = output_dir w2 p2" "script_path w1 p1 = script_path w2 p2"
    by (simp_all add: output_dir_def script_path_def)
qed

lemma subprocess_run_completed:
  "child w c fs = (Exited rc bout berr, fs') \<Longrightarrow> decode_text bout = Some out \<Longrightarrow>
   decode_text berr = Some err \<Longrightarrow> subprocess_run w c fs = (CompletedProcess rc out err, fs')"
  by (simp add: subprocess_run_def)


lemma subprocess_run_killed:
  "child w c fs = (Killed, fs') \<Longrightarrow> subprocess_run w c fs = (TimeoutExpired, fs')"
  by (simp add: subprocess_run_def)

lemma decode_examples:
  "decode_text [] = Some []" "decode_text (lit ''done'') = Some (lit ''done'')"
  "decode_text (lit ''boom'') = Some (lit ''boom'')" "decode_text [255] = None"
  by (simp_all add: decode_text_def translate_newlines_def utf8_decode.simps lit_def)

lemma example_script_run:
  assumes "PROTO_ROOT w = [lit ''home'', lit ''.hidden_prototype'']"
    "now w = example_now" "alnum_table w = (\<lambda>c. False)"
  shows "example_script (child_call w uv (lit ''demo'')) fs =
    (Exited 0 (lit ''done'') [],
     AList.update [lit ''home'', lit ''.hidden_prototype'', lit ''20260102_030405_demo'',
       lit ''outputs'', lit ''a.csv''] (File (lit ''1,2'')) fs)"
proof -
  have "parse_parts (lit ''/home/.hidden_prototype/20260102_030405_demo/outputs'') =
    [lit ''home'', lit ''.hidden_prototype'', lit ''20260102_030405_demo'', lit ''outputs'']"
    by (simp add: parse_parts_def lit_def)
  then show ?thesis
    by (simp add: example_script_def child_call_def child_env_def example_paths(2) [OF assms]
        example_output_text)
qed

lemma example_spoiler_run:
  assumes "PROTO_ROOT w = [lit ''home'', lit ''.hidden_prototype'']"
    "now w = example_now" "alnum_table w = (\<lambda>c. False)"
  shows "example_spoiler (child_call w uv (lit ''demo'')) fs =
    (Exited 0 [] [],
     AList.update [lit ''home'', lit ''.hidden_prototype'', lit ''20260102_030405_demo'',
       lit ''outputs''] (File []) fs)"
proof -
  have "parse_parts (lit ''/home/.hidden_prototype/20260102_030405_demo/outputs'') =
    [lit ''home'', lit ''.hidden_prototype'', lit ''20260102_030405_demo'', lit ''outputs'']"
    by (simp add: parse_parts_def lit_def)
  then show ?thesis
    by (simp add: example_spoiler_def child_call_def child_env_def example_paths(2) [OF assms]
        example_output_text)
qed

text \<open>
  C8, as amended. Two invocations under the same root whose clock readings lie in the same
  second and whose purposes sanitize to the same string derive the same workspace, output
  and script paths. Let the first have created its workspace, and let the disk on which
  the second starts hold at these three paths what the first created there. Then the
  first script is in place, both directory creations of the second succeed and leave the
  disk as it is, and: when the code of the second can be encoded in UTF-8, the second
  replaces the first script by its own code and returns; when it cannot, the second
  leaves the script empty and raises the encoding error.
\<close>

theorem C8_same_second_same_workspace:
  assumes "PROTO_ROOT w1 = PROTO_ROOT w2" and "same_second (now w1) (now w2)"
    and "safe_purpose (alnum_table w1) p1 = safe_purpose (alnum_table w2) p2"
    and "prepare w1 fs0 code1 p1 = Inr fs1"
    and "stat fs (proto_dir w1 p1) = stat fs1 (proto_dir w1 p1)"
    and "stat fs (output_dir w1 p1) = stat fs1 (output_dir w1 p1)"
    and "stat fs (script_path w1 p1) = stat fs1 (script_path w1 p1)"
  shows "proto_dir w1 p1 = proto_dir w2 p2
    \<and> output_dir w1 p1 = output_dir w2 p2
    \<and> script_path w1 p1 = script_path w2 p2
    \<and> stat fs (script_path w1 p1) = Some (File code1)
    \<and> mkdir fs (proto_dir w2 p2) True True = Inr fs
    \<and> mkdir fs (output_dir w2 p2) True True = Inr fs
    \<and> (utf8_encodable code2 \<longrightarrow>
         prepare w2 fs code2 p2 = Inr (AList.update (script_path w1 p1) (File code2) fs)
         \<and> stat (AList.update (script_path w1 p1) (File code2) fs) (script_path w1 p1)
             = Some (File code2)
         \<and> (\<exists>s. returned (forge_and_run w2 fs code2 p2) = Inr s))
    \<and> (\<not> utf8_encodable code2 \<longrightarrow>
         returned (forge_and_run w2 fs code2 p2) = Inl UnicodeEncodeError
         \<and> disk (forge_and_run w2 fs code2 p2)
             = AList.update (script_path w1 p1) (File []) fs)"
proof -
  note eq = same_second_paths [OF assms(1,2,3)]
  note d = prepare_Inr [OF assms(4)]
  have d1: "is_dir fs (proto_dir w1 p1)" "is_dir fs (output_dir w1 p1)"
    and s1: "stat fs (script_path w1 p1) = Some (File code1)"
    using d assms(5,6,7) by (simp_all add: is_dir_def)
  have d2: "is_dir fs (proto_dir w2 p2)" "is_dir fs (output_dir w2 p2)"
    "stat fs (script_path w2 p2) \<noteq> Some Dir"
    using d1 s1 by (simp_all add: eq [symmetric])
  note cw = create_workspace_again [OF d2, of code2]
  have enc: "utf8_encodable code2 \<longrightarrow>
         prepare w2 fs code2 p2 = Inr (AList.update (script_path w1 p1) (File code2) fs)
         \<and> stat (AList.update (script_path w1 p1) (File code2) fs) (script_path w1 p1)
             = Some (File code2)
         \<and> (\<exists>s. returned (forge_and_run w2 fs code2 p2) = Inr s)"
  proof
    assume e: "utf8_encodable code2"
    have again: "prepare w2 fs code2 p2 = Inr (AList.update (script_path w1 p1) (File code2) fs)"
      using cw e by (simp add: prepare_Inr_iff eq(3))
    have "stat (AList.update (script_path w1 p1) (File code2) fs) (script_path w1 p1)
        = Some (File code2)"
      by (simp add: stat_update script_path_eq)
    with again forge_and_run_returns [OF again]
    show "prepare w2 fs code2 p2 = Inr (AList.update (script_path w1 p1) (File code2) fs)
         \<and> stat (AList.update (script_path w1 p1) (File code2) fs) (script_path w1 p1)
             = Some (File code2)
         \<and> (\<exists>s. returned (forge_and_run w2 fs code2 p2) = Inr s)"
      by simp
  qed
  have nenc: "\<not> utf8_encodable code2 \<longrightarrow>
         returned (forge_and_run w2 fs code2 p2) = Inl UnicodeEncodeError
         \<and> disk (forge_and_run w2 fs code2 p2)
             = AList.update (script_path w1 p1) (File []) fs"
  proof
    assume e: "\<not> utf8_encodable code2"
    have "create_workspace w2 fs code2 p2 =
        (Some UnicodeEncodeError, AList.update (script_path w1 p1) (File []) fs)"
      using cw e by (simp add: eq(3))
    from forge_and_run_raises_disk [OF this]
    show "returned (forge_and_run w2 fs code2 p2) = Inl UnicodeEncodeError
         \<and> disk (forge_and_run w2 fs code2 p2)
             = AList.update (script_path w1 p1) (File []) fs"
      by simp
  qed
  have m: "mkdir fs (proto_dir w2 p2) True True = Inr fs"
    "mkdir fs (output_dir w2 p2) True True = Inr fs"
    using d2 by (simp_all add: mkdir_existing)
  from eq s1 m enc nenc show ?thesis by blast
qed

theorem C8_same_second_same_workspace_witness:
  "same_second (now example_world) (now (example_world\<lparr>now := example_now\<lparr>microsecond := 999\<rparr>\<rparr>))
   \<and> safe_purpose (\<lambda>c. False) (lit ''demo'') = safe_purpose (\<lambda>c. False) (lit ''d/e:m.o'')
   \<and> proto_dir example_world (lit ''demo'') =
       proto_dir (example_world\<lparr>now := example_now\<lparr>microsecond := 999\<rparr>\<rparr>) (lit ''d/e:m.o'')
   \<and> stat (disk (forge_and_run example_world example_disk (lit ''print(1)'') (lit ''demo'')))
       [lit ''home'', lit ''.hidden_prototype'', lit ''20260102_030405_demo'', lit ''script.py'']
     = Some (File (lit ''print(1)''))
   \<and> utf8_encodable (lit ''print(2)'')
   \<and> stat (disk (forge_and_run (example_world\<lparr>now := example_now\<lparr>microsecond := 999\<rparr>\<rparr>)
        (disk (forge_and_run example_world example_disk (lit ''print(1)'') (lit ''demo'')))
        (lit ''print(2)'') (lit ''d/e:m.o'')))
       [lit ''home'', lit ''.hidden_prototype'', lit ''20260102_030405_demo'', lit ''script.py'']
     = Some (File (lit ''print(2)''))"
proof -
  let ?w1 = "example_world"
  let ?w2 = "example_world\<lparr>now := example_now\<lparr>microsecond := 999\<rparr>\<rparr>"
  let ?d = "[lit ''home'', lit ''.hidden_prototype'', lit ''20260102_030405_demo'']"
  let ?o = "[lit ''home'', lit ''.hidden_prototype'', lit ''20260102_030405_demo'', lit ''outputs'']"
  let ?s = "[lit ''home'', lit ''.hidden_prototype'', lit ''20260102_030405_demo'', lit ''script.py'']"
  let ?a = "[lit ''home'', lit ''.hidden_prototype'', lit ''20260102_030405_demo'', lit ''outputs'',
      lit ''a.csv'']"
  let ?fs1 = "example_disk @ [(?d, Dir), (?o, Dir), (?s, File (lit ''print(1)''))]"
  let ?fs = "AList.update ?a (File (lit ''1,2'')) ?fs1"
  have a: "PROTO_ROOT ?w1 = [lit ''home'', lit ''.hidden_prototype'']" "now ?w1 = example_now"
    "alnum_table ?w1 = (\<lambda>c. False)"
    by (simp_all add: example_world_def)
  have u: "which_uv ?w1 = Some (lit ''/bin/uv'')" "lit ''/bin/uv'' \<noteq> []"
    by (simp_all add: example_world_def lit_def)
  have c: "child ?w1 = example_script" "child ?w2 = example_script"
    by (simp_all add: example_world_def)
  have r: "PROTO_ROOT ?w1 = PROTO_ROOT ?w2" by simp
  have t: "same_second (now ?w1) (now ?w2)"
    by (simp add: same_second_def example_world_def)
  have sp0: "safe_purpose (\<lambda>c. False) (lit ''demo'') = safe_purpose (\<lambda>c. False) (lit ''d/e:m.o'')"
    by (simp add: safe_purpose_eq keeps_iff isalnum_def lit_def)
  have al: "alnum_table ?w1 = (\<lambda>c. False)" "alnum_table ?w2 = (\<lambda>c. False)"
    by (simp_all add: example_world_def)
  have sp: "safe_purpose (alnum_table ?w1) (lit ''demo'') = safe_purpose (alnum_table ?w2) (lit ''d/e:m.o'')"
    using sp0 by (simp only: al)
  note ep = example_prepare [OF a, of "''print(1)''"]
  note pa = example_paths [OF a]
  have run: "subprocess_run ?w1 (child_call ?w1 (lit ''/bin/uv'') (lit ''demo'')) ?fs1 =
      (CompletedProcess 0 (lit ''done'') [], ?fs)"
    by (rule subprocess_run_completed [OF _ decode_examples(2,1)])
      (simp add: c example_script_run [OF a])
  have first: "disk (forge_and_run ?w1 example_disk (lit ''print(1)'') (lit ''demo'')) = ?fs"
    by (simp add: forge_and_run_completed [OF ep u run])
  have ne: "?d \<noteq> ?a" "?o \<noteq> ?a" "?s \<noteq> ?a" "?d \<noteq> []" "?o \<noteq> []" "?s \<noteq> []"
    by simp_all
  have g: "stat ?fs (proto_dir ?w1 (lit ''demo'')) = stat ?fs1 (proto_dir ?w1 (lit ''demo''))"
    "stat ?fs (output_dir ?w1 (lit ''demo'')) = stat ?fs1 (output_dir ?w1 (lit ''demo''))"
    "stat ?fs (script_path ?w1 (lit ''demo'')) = stat ?fs1 (script_path ?w1 (lit ''demo''))"
    by (simp_all only: pa stat_update ne if_False)
  have e2: "utf8_encodable (lit ''print(2)'')" by (rule utf8_encodable_lit)
  note c8 = C8_same_second_same_workspace [OF r t sp ep g, where ?code2.0 = "lit ''print(2)''"]
  note pd = c8 [THEN conjunct1]
  note od = c8 [THEN conjunct2, THEN conjunct1]
  note s1 = c8 [THEN conjunct2, THEN conjunct2, THEN conjunct2, THEN conjunct1, unfolded pa]
  note p2 = c8 [THEN conjunct2, THEN conjunct2, THEN conjunct2, THEN conjunct2, THEN conjunct2,
      THEN conjunct2, THEN conjunct1, THEN mp, OF e2, THEN conjunct1, unfolded pa]
  have env2: "env (child_call ?w2 (lit ''/bin/uv'') (lit ''d/e:m.o'')) OUTPUT_VAR =
      Some (lit ''/home/.hidden_prototype/20260102_030405_demo/outputs'')"
    by (simp add: child_call_def child_env_def od [symmetric] pa example_output_text)
  have pp: "parse_parts (lit ''/home/.hidden_prototype/20260102_030405_demo/outputs'') = ?o"
    by (simp add: parse_parts_def lit_def)
  have u2: "which_uv ?w2 = Some (lit ''/bin/uv'')" by (simp add: example_world_def)
  have run2: "subprocess_run ?w2 (child_call ?w2 (lit ''/bin/uv'') (lit ''d/e:m.o'')) fs' =
      (CompletedProcess 0 (lit ''done'') [], AList.update ?a (File (lit ''1,2'')) fs')" for fs'
    by (rule subprocess_run_completed [OF _ decode_examples(2,1)])
      (simp add: c example_script_def env2 pp)
  have second: "disk (forge_and_run ?w2 ?fs (lit ''print(2)'') (lit ''d/e:m.o'')) =
      AList.update ?a (File (lit ''1,2'')) (AList.update ?s (File (lit ''print(2)'')) ?fs)"
    by (simp add: forge_and_run_completed [OF p2 u2 u(2) run2])
  have s2: "stat (AList.update ?a (File (lit ''1,2'')) (AList.update ?s (File (lit ''print(2)'')) ?fs)) ?s
      = Some (File (lit ''print(2)''))"
    by (simp only: stat_update ne if_False) simp
  from t sp0 pd s1 e2 s2 show ?thesis
    by (simp only: first second)
qed

theorem C8_second_call_raises_counterexample:
  "same_second (now (example_world\<lparr>child := example_spoiler\<rparr>)) (now example_world)
   \<and> stat (disk (forge_and_run (example_world\<lparr>child := example_spoiler\<rparr>) example_disk
        (lit ''print(1)'') (lit ''demo'')))
       [lit ''home'', lit ''.hidden_prototype'', lit ''20260102_030405_demo'', lit ''outputs'']
     = Some (File [])
   \<and> returned (forge_and_run example_world
        (disk (forge_and_run (example_world\<lparr>child := example_spoiler\<rparr>) example_disk
           (lit ''print(1)'') (lit ''demo'')))
        (lit ''print(2)'') (lit ''demo'')) = Inl FileExistsError
   \<and> stat (disk (forge_and_run example_world
        (disk (forge_and_run (example_world\<lparr>child := example_spoiler\<rparr>) example_disk
           (lit ''print(1)'') (lit ''demo'')))
        (lit ''print(2)'') (lit ''demo'')))
       [lit ''home'', lit ''.hidden_prototype'', lit ''20260102_030405_demo'', lit ''script.py'']
     = Some (File (lit ''print(1)''))
   \<and> returned (forge_and_run example_world
        (disk (forge_and_run example_world example_disk (lit ''print(1)'') (lit ''demo'')))
        (lit ''print(2)'' @ [56448]) (lit ''demo'')) = Inl UnicodeEncodeError
   \<and> stat (disk (forge_and_run example_world
        (disk (forge_and_run example_world example_disk (lit ''print(1)'') (lit ''demo'')))
        (lit ''print(2)'' @ [56448]) (lit ''demo'')))
       [lit ''home'', lit ''.hidden_prototype'', lit ''20260102_030405_demo'', lit ''script.py'']
     = Some (File [])"
proof -
  let ?v = "example_world\<lparr>child := example_spoiler\<rparr>"
  let ?w = "example_world"
  let ?d = "[lit ''home'', lit ''.hidden_prototype'', lit ''20260102_030405_demo'']"
  let ?o = "[lit ''home'', lit ''.hidden_prototype'', lit ''20260102_030405_demo'', lit ''outputs'']"
  let ?s = "[lit ''home'', lit ''.hidden_prototype'', lit ''20260102_030405_demo'', lit ''script.py'']"
  let ?a = "[lit ''home'', lit ''.hidden_prototype'', lit ''20260102_030405_demo'', lit ''outputs'',
      lit ''a.csv'']"
  let ?fs1 = "example_disk @ [(?d, Dir), (?o, Dir), (?s, File (lit ''print(1)''))]"
  let ?bad = "AList.update ?o (File []) ?fs1"
  let ?fs = "AList.update ?a (File (lit ''1,2'')) ?fs1"
  have a0: "PROTO_ROOT ?v = [lit ''home'', lit ''.hidden_prototype'']" "now ?v = example_now"
    "alnum_table ?v = (\<lambda>c. False)"
    by (simp_all add: example_world_def)
  have a: "PROTO_ROOT ?w = [lit ''home'', lit ''.hidden_prototype'']" "now ?w = example_now"
    "alnum_table ?w = (\<lambda>c. False)"
    by (simp_all add: example_world_def)
  have u0: "which_uv ?v = Some (lit ''/bin/uv'')" "lit ''/bin/uv'' \<noteq> []"
    by (simp_all add: example_world_def lit_def)
  have u: "which_uv ?w = Some (lit ''/bin/uv'')"
    by (simp add: example_world_def)
  have c: "child ?w = example_script"
    by (simp add: example_world_def)
  have t: "same_second (now ?v) (now ?w)"
    by (simp add: same_second_def)
  note pa = example_paths [OF a]
  have ne: "?d \<noteq> ?a" "?o \<noteq> ?a" "?s \<noteq> ?a" "?d \<noteq> ?o" "?s \<noteq> ?o" "?d \<noteq> []" "?o \<noteq> []" "?s \<noteq> []"
    by (simp_all add: lit_def)
  have st1: "stat ?fs1 ?d = Some Dir" "stat ?fs1 ?o = Some Dir"
    "stat ?fs1 ?s = Some (File (lit ''print(1)''))"
    using prepare_Inr [OF example_prepare [OF a, of "''print(1)''"]] by (simp_all add: pa is_dir_def)
  have run0: "subprocess_run ?v (child_call ?v (lit ''/bin/uv'') (lit ''demo'')) ?fs1 =
      (CompletedProcess 0 [] [], ?bad)"
    by (rule subprocess_run_completed [OF _ decode_examples(1,1)])
      (simp add: example_spoiler_run [OF a0])
  have first0: "disk (forge_and_run ?v example_disk (lit ''print(1)'') (lit ''demo'')) = ?bad"
    by (simp add: forge_and_run_completed [OF example_prepare [OF a0, of "''print(1)''"] u0 run0])
  have b: "stat ?bad ?d = Some Dir" "stat ?bad ?o = Some (File [])"
    "stat ?bad ?s = Some (File (lit ''print(1)''))"
    by (simp_all only: stat_update ne st1 if_False if_True simp_thms)
  have m1: "mkdir ?bad ?d True True = Inr ?bad"
    using b(1) by (simp add: mkdir_existing is_dir_def)
  have m2: "mkdir ?bad ?o True True = Inl FileExistsError"
    by (subst mkdir.simps) (simp add: os_mkdir_def is_dir_def b(2))
  have cw0: "create_workspace ?w ?bad (lit ''print(2)'') (lit ''demo'') = (Some FileExistsError, ?bad)"
    by (simp only: create_workspace_def pa m1 m2 sum.case)
  note second0 = forge_and_run_raises_disk [OF cw0]
  have run: "subprocess_run ?w (child_call ?w (lit ''/bin/uv'') (lit ''demo'')) ?fs1 =
      (CompletedProcess 0 (lit ''done'') [], ?fs)"
    by (rule subprocess_run_completed [OF _ decode_examples(2,1)])
      (simp add: c example_script_run [OF a])
  have first: "disk (forge_and_run ?w example_disk (lit ''print(1)'') (lit ''demo'')) = ?fs"
    by (simp add: forge_and_run_completed [OF example_prepare [OF a, of "''print(1)''"] u u0(2) run])
  have g: "is_dir ?fs (proto_dir ?w (lit ''demo''))" "is_dir ?fs (output_dir ?w (lit ''demo''))"
    "stat ?fs (script_path ?w (lit ''demo'')) \<noteq> Some Dir"
    by (simp_all only: pa is_dir_def stat_update ne st1 if_False) simp_all
  have n: "\<not> utf8_encodable (lit ''print(2)'' @ [56448])"
    by (simp add: utf8_encodable_def)
  have cw: "create_workspace ?w ?fs (lit ''print(2)'' @ [56448]) (lit ''demo'') =
      (Some UnicodeEncodeError, AList.update ?s (File []) ?fs)"
    using create_workspace_again [OF g, of "lit ''print(2)'' @ [56448]"] n by (simp only: pa if_False)
  note second = forge_and_run_raises_disk [OF cw]
  have e: "stat (AList.update ?s (File []) ?fs) ?s = Some (File [])"
    by (simp only: stat_update ne if_False) simp
  from t b e show ?thesis
    by (simp only: first0 first second0 second) simp
qed

section \<open>The report\<close>


lemma sublist_append_right: "sublist xs zs \<Longrightarrow> sublist xs (ys @ zs)"
  by (simp add: sublist_append)



lemma sublist_join: "x \<in> set xs \<Longrightarrow> sublist x (join sep xs)"
proof (induction sep xs rule: join.induct)
  case (3 sep a b bs)
  show ?case
  proof (cases "x = a")
    case True
    then show ?thesis by simp
  next
    case False
    with 3 have "sublist x (join sep (b # bs))" by simp
    then show ?thesis by (simp add: sublist_append_right)
  qed
qed simp_all

lemma sublist_newline_split:
  assumes "10 \<notin> set m" "m \<noteq> []" "sublist m (a @ 10 # b)"
  shows "sublist m a \<or> sublist m b"
proof -
  from assms(3) consider "sublist m a" | "sublist m (10 # b)"
    | m1 m2 where "m = m1 @ m2" "suffix m1 a" "prefix m2 (10 # b)"
    by (auto simp: sublist_append)
  then show ?thesis
  proof cases
    case 1
    then show ?thesis by simp
  next
    case 2
    then have "prefix m (10 # b) \<or> sublist m b" by (simp add: sublist_Cons_right)
    moreover have "\<not> prefix m (10 # b)"
      using assms(1,2) by (cases m) auto
    ultimately show ?thesis by simp
  next
    case 3
    have "m2 = []"
    proof (rule ccontr)
      assume "m2 \<noteq> []"
      with 3(3) have "hd m2 = 10" by (cases m2) auto
      with \<open>m2 \<noteq> []\<close> have "10 \<in> set m2" by (cases m2) auto
      with 3(1) assms(1) show False by simp
    qed
    with 3 show ?thesis by auto
  qed
qed

lemma sublist_join_newline:
  "10 \<notin> set m \<Longrightarrow> m \<noteq> [] \<Longrightarrow> sublist m (join [10] xs) \<Longrightarrow> \<exists>x\<in>set xs. sublist m x"
proof (induction "[10::nat]" xs rule: join.induct)
  case (3 a b bs)
  from 3(2,3,4) have "sublist m a \<or> sublist m (join [10] (b # bs))"
    using sublist_newline_split [of m a "join [10] (b # bs)"] by simp
  with 3 show ?case by auto
qed simp_all

lemma set_str_int: "set (str_int i) \<subseteq> insert 45 {48..57}"
  using set_digits by (auto simp: str_int_def lit_def)




lemma status_line_success: "status_line 0 = CHART # lit '' Status: Success''"
  by (simp add: status_line_def lit_def)









lemma timeout_error_plain:
  "\<not> sublist (lit ''Status:'') timeout_error"
  "\<not> sublist (lit ''Success'') timeout_error"
  "\<not> sublist (lit ''Failed'') timeout_error"
  "\<not> sublist (lit ''Generated Artifacts'') timeout_error"
  "CHART \<notin> set timeout_error" "FOLDER \<notin> set timeout_error" "ROCKET \<notin> set timeout_error"
  by (simp_all add: timeout_error_def lit_def CROSS_def CHART_def FOLDER_def ROCKET_def
      sublist_Cons_right)

text \<open>
  C4. When the child process exceeds the timeout of 180 seconds, the call returns the
  fixed timeout string, whatever the child has written to the disk by then; the string
  holds no status line, neither of the two status words and no artifact listing, and
  the files written stay on the disk.
\<close>

theorem C4_timeout:
  assumes "prepare w fs code purpose = Inr fs1" and "which_uv w = Some uv" and "uv \<noteq> []"
    and "subprocess_run w (child_call w uv purpose) fs1 = (TimeoutExpired, fs2)"
  shows "returned (forge_and_run w fs code purpose) = Inr timeout_error
    \<and> disk (forge_and_run w fs code purpose) = fs2
    \<and> timeout (child_call w uv purpose) = 180
    \<and> timeout_error = CROSS # lit '' Error: Execution timed out (180s).''
    \<and> \<not> sublist (lit ''Status:'') timeout_error
    \<and> \<not> sublist (lit ''Success'') timeout_error
    \<and> \<not> sublist (lit ''Failed'') timeout_error
    \<and> \<not> sublist (lit ''Generated Artifacts'') timeout_error
    \<and> CHART \<notin> set timeout_error \<and> FOLDER \<notin> set timeout_error"
  by (simp add: forge_and_run_timeout [OF assms] timeout_error_plain child_call_def)
    (simp add: timeout_error_def)


lemma example_run_rc3:
  "subprocess_run (example_world\<lparr>child := \<lambda>c fs. (Exited 3 [] (lit ''boom''), fs)\<rparr>) c fs
     = (CompletedProcess 3 [] (lit ''boom''), fs)"
  by (simp add: subprocess_run_def decode_examples)



theorem C4_timeout_witness:
  "returned (forge_and_run
       (example_world\<lparr>child := \<lambda>c fs. (Killed, snd (example_script c fs))\<rparr>)
       example_disk (lit ''while True: pass'') (lit ''demo'')) = Inr timeout_error
   \<and> stat (disk (forge_and_run
       (example_world\<lparr>child := \<lambda>c fs. (Killed, snd (example_script c fs))\<rparr>)
       example_disk (lit ''while True: pass'') (lit ''demo'')))
       [lit ''home'', lit ''.hidden_prototype'', lit ''20260102_030405_demo'', lit ''outputs'',
        lit ''a.csv''] = Some (File (lit ''1,2''))
   \<and> \<not> sublist (lit ''Generated Artifacts'') timeout_error"
proof -
  let ?w = "example_world\<lparr>child := \<lambda>c fs. (Killed, snd (example_script c fs))\<rparr>"
  have a: "PROTO_ROOT ?w = [lit ''home'', lit ''.hidden_prototype'']" "now ?w = example_now"
    "alnum_table ?w = (\<lambda>c. False)"
    by (simp_all add: example_world_def)
  have u: "which_uv ?w = Some (lit ''/bin/uv'')" "lit ''/bin/uv'' \<noteq> []"
    by (simp_all add: example_world_def lit_def)
  have run: "subprocess_run ?w (child_call ?w (lit ''/bin/uv'') (lit ''demo'')) fs =
    (TimeoutExpired, AList.update [lit ''home'', lit ''.hidden_prototype'',
       lit ''20260102_030405_demo'', lit ''outputs'', lit ''a.csv''] (File (lit ''1,2'')) fs)" for fs
    by (simp add: subprocess_run_def example_script_run [OF a])
  from C4_timeout [OF example_prepare [OF a] u run]
  show ?thesis
    by (simp add: stat_update)
qed

section \<open>The output blocks and the artifact listing\<close>

lemma join_Cons: "join sep (x # xs) = x @ (if xs = [] then [] else sep @ join sep xs)"
  by (cases xs) simp_all


lemma sublist_skip_prefix:
  "m \<noteq> [] \<Longrightarrow> hd m \<notin> set a \<Longrightarrow> sublist m (a @ b) \<Longrightarrow> sublist m b"
proof (induction a)
  case (Cons x a)
  from Cons.prems(3) have "prefix m (x # a @ b) \<or> sublist m (a @ b)"
    by (simp add: sublist_Cons_right)
  moreover have "\<not> prefix m (x # a @ b)"
    using Cons.prems(1,2) by (cases m) auto
  ultimately show ?case using Cons by simp
qed simp

lemma not_sublist_missing: "c \<in> set m \<Longrightarrow> c \<notin> set s \<Longrightarrow> \<not> sublist m s"
  using set_mono_sublist by fastforce

lemma status_line_chars:
  "set (status_line rc) \<subseteq> insert CHART (set (lit '' Status: SuccessFailed (Exit Code: )'') \<union> insert 45 {48..57})"
  using set_str_int [of rc] by (auto simp: status_line_def lit_def)

lemma status_line_no_bracket: "91 \<notin> set (status_line rc)" "FOLDER \<notin> set (status_line rc)"
  using status_line_chars [of rc] by (auto simp: lit_def CHART_def FOLDER_def)

lemma stdout_block:
  "sublist (10 # lit ''[Standard Output]'' @ 10 # (if out \<noteq> [] then out else lit ''(No output)''))
     (join [10] (report P d rc out err arts))"
proof -
  let ?o = "if out \<noteq> [] then out else lit ''(No output)''"
  let ?rest = "(if err \<noteq> [] then [stderr_section err] else []) @
      (if arts \<noteq> [] then [artifacts_section P arts] else [])"
  have "join [10] (report P d rc out err arts) =
      (ROCKET # lit '' Prototype Directory Created: '' @ str_path d @ 10 # status_line rc @ [10]) @
      (10 # lit ''[Standard Output]'' @ 10 # ?o) @
      (if ?rest = [] then [] else 10 # join [10] ?rest)"
    by (simp add: report_def join_Cons)
  then show ?thesis
    by (simp only: sublist_appendI)
qed

lemma stderr_block:
  "err \<noteq> [] \<Longrightarrow> sublist (10 # lit ''[Standard Error]'' @ 10 # err) (join [10] (report P d rc out err arts))"
  by (rule sublist_join) (simp add: report_def stderr_section_def)

lemma marker_facts:
  "10 \<notin> set (lit ''[Standard Error]'')" "lit ''[Standard Error]'' \<noteq> []"
  "hd (lit ''[Standard Error]'') = 91" "91 \<in> set (lit ''[Standard Error]'')"
  "91 \<notin> set (ROCKET # lit '' Prototype Directory Created: '')"
  "\<not> sublist (lit ''[Standard Error]'') (10 # lit ''[Standard Output]'')"
  "\<not> sublist (lit ''[Standard Error]'') (lit ''(No output)'')"
  by (simp_all add: lit_def ROCKET_def sublist_Cons_right)

lemma no_stderr_heading:
  assumes "sublist (lit ''[Standard Error]'') (join [10] (report P d rc out [] arts))"
  shows "sublist (lit ''[Standard Error]'') out
    \<or> sublist (lit ''[Standard Error]'') (str_path d)
    \<or> (arts \<noteq> [] \<and> sublist (lit ''[Standard Error]'') (artifacts_section P arts))"
proof -
  let ?m = "lit ''[Standard Error]''"
  from sublist_join_newline [OF marker_facts(1,2) assms]
  obtain x where x: "x \<in> set (report P d rc out [] arts)" "sublist ?m x" by blast
  from x(1) consider
      "x = (ROCKET # lit '' Prototype Directory Created: '') @ str_path d"
    | "x = status_line rc" | "x = 10 # lit ''[Standard Output]''"
    | "x = out" | "x = lit ''(No output)''"
    | "arts \<noteq> []" "x = artifacts_section P arts"
    by (auto simp: report_def split: if_splits)
  then show ?thesis
  proof cases
    case 1
    with x(2) marker_facts(2,3,5) have "sublist ?m (str_path d)"
      using sublist_skip_prefix [of ?m "ROCKET # lit '' Prototype Directory Created: ''" "str_path d"]
      by simp
    then show ?thesis by simp
  next
    case 2
    with x(2) show ?thesis
      using not_sublist_missing [OF marker_facts(4) status_line_no_bracket(1)] by simp
  next
    case 3
    with x(2) marker_facts(6) show ?thesis by simp
  next
    case 4
    with x(2) show ?thesis by simp
  next
    case 5
    with x(2) marker_facts(7) show ?thesis by simp
  next
    case 6
    with x(2) show ?thesis by simp
  qed
qed

text \<open>
  C6. When the child process completes, the report holds the standard-output heading
  followed by the captured output, or by the placeholder when the output is empty. When
  the captured standard error is not empty, the report holds the standard-error heading
  followed by that text as it is. When it is empty, the report has no such section: the
  sections are the workspace line, the status line, the output block and the listing, and
  the heading can occur in the text only inside the captured output, the workspace path
  or the listing.
\<close>

theorem C6_output_sections:
  assumes "prepare w fs code purpose = Inr fs1" and "which_uv w = Some uv" and "uv \<noteq> []"
    and "subprocess_run w (child_call w uv purpose) fs1 = (CompletedProcess rc out err, fs2)"
  shows "\<exists>rep. returned (forge_and_run w fs code purpose) = Inr rep
    \<and> (out \<noteq> [] \<longrightarrow> sublist (10 # lit ''[Standard Output]'' @ 10 # out) rep)
    \<and> (out = [] \<longrightarrow> sublist (10 # lit ''[Standard Output]'' @ 10 # lit ''(No output)'') rep)
    \<and> (err \<noteq> [] \<longrightarrow> sublist (10 # lit ''[Standard Error]'' @ 10 # err) rep)
    \<and> (err = [] \<and> sublist (lit ''[Standard Error]'') rep \<longrightarrow>
          sublist (lit ''[Standard Error]'') out
          \<or> sublist (lit ''[Standard Error]'') (str_path (proto_dir w purpose))
          \<or> sublist (lit ''[Standard Error]'')
               (artifacts_section (printable_table w) (glob_star fs2 (output_dir w purpose))))
    \<and> rep = join [10]
        ([ROCKET # lit '' Prototype Directory Created: '' @ str_path (proto_dir w purpose),
          status_line rc,
          10 # lit ''[Standard Output]'',
          if out \<noteq> [] then out else lit ''(No output)'']
         @ (if err \<noteq> [] then [10 # lit ''[Standard Error]'' @ 10 # err] else [])
         @ (if glob_star fs2 (output_dir w purpose) \<noteq> []
            then [artifacts_section (printable_table w) (glob_star fs2 (output_dir w purpose))]
            else []))"
proof -
  let ?arts = "glob_star fs2 (output_dir w purpose)"
  let ?rep = "join [10] (report (printable_table w) (proto_dir w purpose) rc out err ?arts)"
  have r: "returned (forge_and_run w fs code purpose) = Inr ?rep"
    by (simp add: forge_and_run_completed [OF assms])
  have o: "sublist (10 # lit ''[Standard Output]'' @ 10 # (if out \<noteq> [] then out else lit ''(No output)'')) ?rep"
    by (rule stdout_block)
  have e: "err \<noteq> [] \<longrightarrow> sublist (10 # lit ''[Standard Error]'' @ 10 # err) ?rep"
    by (simp add: stderr_block)
  have n: "err = [] \<and> sublist (lit ''[Standard Error]'') ?rep \<longrightarrow>
          sublist (lit ''[Standard Error]'') out
          \<or> sublist (lit ''[Standard Error]'') (str_path (proto_dir w purpose))
          \<or> sublist (lit ''[Standard Error]'') (artifacts_section (printable_table w) ?arts)"
    using no_stderr_heading [of "printable_table w" "proto_dir w purpose" rc out ?arts] by auto
  have s: "?rep = join [10]
        ([ROCKET # lit '' Prototype Directory Created: '' @ str_path (proto_dir w purpose),
          status_line rc,
          10 # lit ''[Standard Output]'',
          if out \<noteq> [] then out else lit ''(No output)'']
         @ (if err \<noteq> [] then [10 # lit ''[Standard Error]'' @ 10 # err] else [])
         @ (if ?arts \<noteq> [] then [artifacts_section (printable_table w) ?arts] else []))"
    by (simp only: report_def stderr_section_def)
  from o have o1: "out \<noteq> [] \<longrightarrow> sublist (10 # lit ''[Standard Output]'' @ 10 # out) ?rep"
    and o2: "out = [] \<longrightarrow> sublist (10 # lit ''[Standard Output]'' @ 10 # lit ''(No output)'') ?rep"
    by (simp_all split: if_splits)
  from r o1 o2 e n s show ?thesis by blast
qed













lemma example_world_facts:
  "PROTO_ROOT example_world = [lit ''home'', lit ''.hidden_prototype'']"
  "now example_world = example_now" "alnum_table example_world = (\<lambda>c. False)"
  "which_uv example_world = Some (lit ''/bin/uv'')" "lit ''/bin/uv'' \<noteq> []"
  "printable_table example_world = (\<lambda>c. True)"
  by (simp_all add: example_world_def lit_def)

lemma example_run:
  "subprocess_run example_world (child_call example_world (lit ''/bin/uv'') (lit ''demo'')) fs =
    (CompletedProcess 0 (lit ''done'') [],
     AList.update [lit ''home'', lit ''.hidden_prototype'', lit ''20260102_030405_demo'',
       lit ''outputs'', lit ''a.csv''] (File (lit ''1,2'')) fs)"
proof -
  have c: "child example_world = example_script"
    by (simp add: example_world_def)
  show ?thesis
    by (rule subprocess_run_completed [OF _ decode_examples(2,1)])
      (simp add: c example_script_run [OF example_world_facts(1,2,3)])
qed

lemma example_glob:
  "glob_star
     (AList.update [lit ''home'', lit ''.hidden_prototype'', lit ''20260102_030405_demo'',
        lit ''outputs'', lit ''a.csv''] (File (lit ''1,2''))
       (example_disk @
         [([lit ''home'', lit ''.hidden_prototype'', lit ''20260102_030405_demo''], Dir),
          ([lit ''home'', lit ''.hidden_prototype'', lit ''20260102_030405_demo'', lit ''outputs''], Dir),
          ([lit ''home'', lit ''.hidden_prototype'', lit ''20260102_030405_demo'', lit ''script.py''],
           File code)]))
     [lit ''home'', lit ''.hidden_prototype'', lit ''20260102_030405_demo'', lit ''outputs'']
   = [[lit ''home'', lit ''.hidden_prototype'', lit ''20260102_030405_demo'', lit ''outputs'',
       lit ''a.csv'']]"
  by (simp add: glob_star_def is_dir_def stat_def example_disk_def lit_def)

lemma example_listing:
  "artifacts_section (\<lambda>c. True)
     [[lit ''home'', lit ''.hidden_prototype'', lit ''20260102_030405_demo'', lit ''outputs'',
       lit ''a.csv'']]
   = 10 # FOLDER # lit '' Generated Artifacts in outputs/: ['' @ 39 # lit ''a.csv'' @ 39 # lit '']''"
  by (simp add: artifacts_section_def repr_list_def repr_str_def repr_char_def path_name_def lit_def)

lemma example_report:
  "returned (forge_and_run example_world example_disk (lit code) (lit ''demo'')) =
     Inr (ROCKET # lit '' Prototype Directory Created: /home/.hidden_prototype/20260102_030405_demo''
          @ 10 # CHART # lit '' Status: Success''
          @ 10 # 10 # lit ''[Standard Output]''
          @ 10 # lit ''done''
          @ 10 # 10 # FOLDER # lit '' Generated Artifacts in outputs/: ['' @ 39 # lit ''a.csv''
          @ 39 # lit '']'')"
proof -
  have p: "str_path [lit ''home'', lit ''.hidden_prototype'', lit ''20260102_030405_demo''] =
      lit ''/home/.hidden_prototype/20260102_030405_demo''"
    by (simp add: str_path_def lit_def)
  have d: "lit ''done'' \<noteq> []" by (simp add: lit_def)
  show ?thesis
    by (simp add: forge_and_run_completed [OF example_prepare [OF example_world_facts(1,2,3)]
          example_world_facts(4,5) example_run]
        example_paths [OF example_world_facts(1,2,3)] example_glob example_world_facts(6)
        report_def status_line_success p d example_listing)
      (simp add: lit_def)
qed



theorem C6_output_sections_witness:
  "(\<exists>rep. returned (forge_and_run
       (example_world\<lparr>child := \<lambda>c fs. (Exited 3 [] (lit ''boom''), fs)\<rparr>)
       example_disk (lit ''exit(3)'') (lit ''demo'')) = Inr rep
     \<and> sublist (10 # lit ''[Standard Output]'' @ 10 # lit ''(No output)'') rep
     \<and> sublist (10 # lit ''[Standard Error]'' @ 10 # lit ''boom'') rep)
   \<and> (\<exists>rep. returned (forge_and_run example_world example_disk (lit ''save()'') (lit ''demo''))
         = Inr rep
     \<and> sublist (10 # lit ''[Standard Output]'' @ 10 # lit ''done'') rep
     \<and> \<not> sublist (lit ''[Standard Error]'') rep)"
proof
  let ?w = "example_world\<lparr>child := \<lambda>c fs. (Exited 3 [] (lit ''boom''), fs)\<rparr>"
  have a: "PROTO_ROOT ?w = [lit ''home'', lit ''.hidden_prototype'']" "now ?w = example_now"
    "alnum_table ?w = (\<lambda>c. False)"
    by (simp_all add: example_world_def)
  have u: "which_uv ?w = Some (lit ''/bin/uv'')" "lit ''/bin/uv'' \<noteq> []"
    by (simp_all add: example_world_def lit_def)
  have b: "lit ''boom'' \<noteq> []" by (simp add: lit_def)
  from C6_output_sections [OF example_prepare [OF a, of "''exit(3)''"] u example_run_rc3] b
  show "\<exists>rep. returned (forge_and_run ?w example_disk (lit ''exit(3)'') (lit ''demo'')) = Inr rep
     \<and> sublist (10 # lit ''[Standard Output]'' @ 10 # lit ''(No output)'') rep
     \<and> sublist (10 # lit ''[Standard Error]'' @ 10 # lit ''boom'') rep"
    by auto
next
  let ?m = "lit ''[Standard Error]''"
  let ?o = "[lit ''home'', lit ''.hidden_prototype'', lit ''20260102_030405_demo'', lit ''outputs'']"
  let ?fs2 = "AList.update [lit ''home'', lit ''.hidden_prototype'', lit ''20260102_030405_demo'',
        lit ''outputs'', lit ''a.csv''] (File (lit ''1,2''))
       (example_disk @
         [([lit ''home'', lit ''.hidden_prototype'', lit ''20260102_030405_demo''], Dir),
          (?o, Dir),
          ([lit ''home'', lit ''.hidden_prototype'', lit ''20260102_030405_demo'', lit ''script.py''],
           File (lit ''save()''))])"
  note a = example_world_facts(1,2,3)
  from C6_output_sections [OF example_prepare [OF a, of "''save()''"] example_world_facts(4,5)
      example_run]
  obtain rep where r: "returned (forge_and_run example_world example_disk (lit ''save()'')
        (lit ''demo'')) = Inr rep"
    and o: "lit ''done'' \<noteq> [] \<longrightarrow> sublist (10 # lit ''[Standard Output]'' @ 10 # lit ''done'') rep"
    and n: "sublist ?m rep \<longrightarrow>
          sublist ?m (lit ''done'')
          \<or> sublist ?m (str_path (proto_dir example_world (lit ''demo'')))
          \<or> sublist ?m (artifacts_section (printable_table example_world)
               (glob_star ?fs2 (output_dir example_world (lit ''demo''))))"
    by auto
  have 1: "\<not> sublist ?m (lit ''done'')"
    by (simp add: lit_def sublist_Cons_right)
  have 2: "\<not> sublist ?m (str_path (proto_dir example_world (lit ''demo'')))"
    by (simp only: example_paths(1) [OF a]) (simp add: str_path_def lit_def sublist_Cons_right)
  have 3: "\<not> sublist ?m (artifacts_section (printable_table example_world)
               (glob_star ?fs2 (output_dir example_world (lit ''demo''))))"
    by (simp only: example_paths(2) [OF a] example_glob example_world_facts(6) example_listing)
      (simp add: lit_def FOLDER_def sublist_Cons_right)
  have d: "lit ''done'' \<noteq> []" by (simp add: lit_def)
  from r o n 1 2 3 d
  show "\<exists>rep. returned (forge_and_run example_world example_disk (lit ''save()'') (lit ''demo''))
         = Inr rep
     \<and> sublist (10 # lit ''[Standard Output]'' @ 10 # lit ''done'') rep
     \<and> \<not> sublist (lit ''[Standard Error]'') rep"
    by blast
qed

section \<open>Purposes that differ in disallowed characters\<close>



section \<open>Nothing is created outside the root\<close>

lemma prepare_frame:
  assumes "prepare w fs code purpose = Inr fs'"
    and "\<not> prefix q (output_dir w purpose)" and "q \<noteq> script_path w purpose"
  shows "stat fs' q = stat fs q"
proof -
  from assms(1) obtain fs1 fs2 where
    a: "mkdir fs (proto_dir w purpose) True True = Inr fs1" and
    b: "mkdir fs1 (output_dir w purpose) True True = Inr fs2" and
    c: "save fs2 (script_path w purpose) code = (None, fs')"
    by (rule prepare_steps)
  have "prefix (proto_dir w purpose) (output_dir w purpose)"
    by (simp add: proto_dir_eq output_dir_eq)
  with assms(2) have "\<not> prefix q (proto_dir w purpose)"
    using prefix_order.trans by blast
  then have "stat fs1 q = stat fs q" using a by (simp add: mkdir_frame)
  moreover have "stat fs2 q = stat fs1 q" using b assms(2) by (simp add: mkdir_frame)
  moreover have "stat fs' q = stat fs2 q"
    using save_None [OF c] assms(3) by (auto simp: stat_update stat_Nil)
  ultimately show ?thesis by simp
qed

lemma prepare_touches:
  assumes "prepare w fs code purpose = Inr fs'" and "stat fs' q \<noteq> stat fs q"
  shows "prefix q (PROTO_ROOT w) \<or> prefix (PROTO_ROOT w @ [workspace_name w purpose]) q"
proof -
  from assms prepare_frame [OF assms(1), of q]
  have "prefix q (output_dir w purpose) \<or> q = script_path w purpose" by blast
  then show ?thesis
  proof
    assume "prefix q (output_dir w purpose)"
    then have "prefix q ((PROTO_ROOT w @ [workspace_name w purpose]) @ [lit ''outputs''])"
      by (simp add: output_dir_eq)
    then have "q = (PROTO_ROOT w @ [workspace_name w purpose]) @ [lit ''outputs'']
        \<or> q = PROTO_ROOT w @ [workspace_name w purpose] \<or> prefix q (PROTO_ROOT w)"
      unfolding prefix_snoc by blast
    then show ?thesis by auto
  next
    assume "q = script_path w purpose"
    then show ?thesis by (simp add: script_path_eq)
  qed
qed

text \<open>
  C10. Whatever the purpose, its sanitized form holds no slash, no dot and no backslash,
  so the workspace is the root directory followed by one component, and the output
  directory and the script are that path followed by one fixed component. The three
  creation steps change the disk only at the workspace and below it, and, when the root
  directory itself is missing, at the root and its ancestors.
\<close>

theorem C10_workspace_is_direct_child:
  "47 \<notin> set (safe_purpose (alnum_table w) purpose)
   \<and> 46 \<notin> set (safe_purpose (alnum_table w) purpose)
   \<and> 92 \<notin> set (safe_purpose (alnum_table w) purpose)
   \<and> 47 \<notin> set (workspace_name w purpose)
   \<and> proto_dir w purpose = PROTO_ROOT w @ [workspace_name w purpose]
   \<and> output_dir w purpose = PROTO_ROOT w @ [workspace_name w purpose, lit ''outputs'']
   \<and> script_path w purpose = PROTO_ROOT w @ [workspace_name w purpose, lit ''script.py'']
   \<and> (prepare w fs code purpose = Inr fs' \<longrightarrow>
        (\<forall>q. stat fs' q \<noteq> stat fs q \<longrightarrow>
           prefix q (PROTO_ROOT w) \<or> prefix (PROTO_ROOT w @ [workspace_name w purpose]) q))"
  using prepare_touches [of w fs code purpose fs']
  by (simp add: safe_purpose_no_separator workspace_name_plain proto_dir_eq output_dir_eq
      script_path_eq)

theorem C10_workspace_is_direct_child_witness:
  "proto_dir example_world (lit ''../../etc/passwd'') =
     [lit ''home'', lit ''.hidden_prototype'', lit ''20260102_030405_etcpasswd'']
   \<and> (\<exists>fs'. prepare example_world example_disk (lit ''print(1)'') (lit ''demo'') = Inr fs'
        \<and> stat fs' [lit ''etc'', lit ''passwd''] = stat example_disk [lit ''etc'', lit ''passwd''])"
proof
  show "proto_dir example_world (lit ''../../etc/passwd'') =
     [lit ''home'', lit ''.hidden_prototype'', lit ''20260102_030405_etcpasswd'']"
    using C10_workspace_is_direct_child [of example_world "lit ''../../etc/passwd''"]
    by (simp add: workspace_name_def example_world_def example_now_def strftime_def zfill_def
        digits.simps safe_purpose_eq keeps_iff isalnum_def lit_def)
next
  note a = example_world_facts(1,2,3)
  note p = example_prepare [OF a, of "''print(1)''"]
  have n: "\<not> prefix [lit ''etc'', lit ''passwd''] (PROTO_ROOT example_world)"
    "\<not> prefix (PROTO_ROOT example_world @ [workspace_name example_world (lit ''demo'')])
        [lit ''etc'', lit ''passwd'']"
    by (simp_all add: a lit_def)
  from C10_workspace_is_direct_child [of example_world "lit ''demo''" example_disk "lit ''print(1)''"] p n
  show "\<exists>fs'. prepare example_world example_disk (lit ''print(1)'') (lit ''demo'') = Inr fs'
        \<and> stat fs' [lit ''etc'', lit ''passwd''] = stat example_disk [lit ''etc'', lit ''passwd'']"
    by blast
qed

end
